theory Spec2Isabelle
  imports Main
begin

section \<open>Data model of nymSocketManager.go\<close>

text \<open>
  The manager is the Go struct \<^verbatim>\<open>NymSocketManager\<close>. Pointers and channels are handles
  (natural numbers), \<^verbatim>\<open>nil\<close> is \<open>None\<close>. The two mutexes are not modelled: every
  operation below runs to completion before the next one starts, which is one of the
  interleavings the locks allow. The receive loop's goroutine appears as the list of
  frames it hands to \<^verbatim>\<open>messageDispatcher\<close>.
\<close>

type_synonym bytes = string
type_synonym conn = nat
type_synonym chan = nat
type_synonym listener = nat
type_synonym lchan = nat

text \<open>
  The value stored under a key of the generically decoded frame
  (\<^verbatim>\<open>map[string]interface{}\<close>): only whether it is a string, and which, matters to the
  \<^verbatim>\<open>switch\<close> of the dispatcher.
\<close>

datatype json = JStr string | JOther

text \<open>
  Modelled from the spec: the wire message types \<^verbatim>\<open>NymMessage\<close>,
  \<^verbatim>\<open>NymSelfAddressReply\<close>, \<^verbatim>\<open>NymError\<close> and \<^verbatim>\<open>NymReceived\<close> are declared outside
  nymSocketManager.go. An outbound message is the identity request or an application
  message; an identity reply carries \<open>type\<close> and \<open>address\<close>, an error reply \<open>type\<close> and
  \<open>message\<close>; application data is an opaque payload.
\<close>

datatype NymMessage = SelfAddressRequest | AppMessage string

record NymSelfAddressReply =
  reply_Type :: string
  reply_Address :: string

record NymError =
  error_Type :: string
  error_Message :: string

type_synonym NymReceived = string

definition NewSelfAddressRequest :: NymMessage where
  "NewSelfAddressRequest = SelfAddressRequest"

record NymSocketManager =
  clientID :: string
  connectionURI :: string
  connection :: "conn option"
  selfInstanceStoppedChan :: "chan option"
  socketListener :: "listener option"
  closedSocketListenerChan :: "lchan option"
  selfAddressReceivedChan :: "chan option"

text \<open>The errors the functions return, one constructor per \<^verbatim>\<open>xerrors.Errorf\<close> site.\<close>

datatype error =
    ErrEmptyURI
  | ErrNoHandler
  | ErrNoLogger
  | ErrDial
  | ErrListener
  | ErrSendRequest
  | ErrCollectClientID
  | ErrNotStarted
  | ErrMarshal
  | ErrWrite
  | ErrWriteClose

text \<open>
  What the manager does to the outside is recorded as a trace of events, in order:
  log calls (by level), dialling, the listener's creation and start, frames written to
  the transport (with whether the write succeeded), the wait for the listener's closed
  signal (\<open>True\<close>: the signal came, \<open>False\<close>: the deadline elapsed), closing the transport,
  closing a channel, and calls of the application's message handler.
\<close>

datatype level = LvTrace | LvDebug | LvWarn | LvError

datatype kind = TextMessage | CloseMessage

datatype event =
    Log level
  | Dial string bool
  | NewListener conn bool
  | Listen listener
  | WriteMessage conn kind bytes bool
  | AwaitListenerClosed bool
  | ConnClose conn bool
  | CloseChan chan
  | Handler NymReceived

text \<open>
  The world outside the struct: the channels made by \<^verbatim>\<open>make\<close> (channel \<open>c\<close> is the
  \<open>c\<close>-th one made, the flag says whether it has been closed), the number of
  connections dialled, the number of write attempts, and the trace.
\<close>

record world =
  chans :: "bool list"
  conns :: nat
  writes :: nat
  trace :: "event list"

text \<open>
  The collaborators the file calls but does not define are parameters: the JSON decoders
  and encoder, the three discriminator constants, the application's message handler
  (abstracted to the replies it sends through the bound send function), and the
  transport's answers (whether the \<open>k\<close>-th write fails, whether closing a connection
  fails).
\<close>

record env =
  unmarshalMap :: "bytes \<Rightarrow> (string \<rightharpoonup> json) option"
  unmarshalSelfAddressReply :: "bytes \<Rightarrow> NymSelfAddressReply option"
  unmarshalError :: "bytes \<Rightarrow> NymError option"
  unmarshalReceived :: "bytes \<Rightarrow> NymReceived option"
  marshal :: "NymMessage \<Rightarrow> bytes option"
  NymSelfAddressReplyType :: string
  NymErrorType :: string
  NymReceivedType :: string
  messageHandler :: "NymReceived \<Rightarrow> NymMessage list"
  writeFails :: "nat \<Rightarrow> bool"
  closeFails :: "conn \<Rightarrow> bool"

text \<open>A Go panic ends the run; otherwise the function returns.\<close>

datatype 'a exec = Panic | Return 'a

section \<open>Channels and logging\<close>

definition log :: "level \<Rightarrow> world \<Rightarrow> world" where
  "log lv w = w\<lparr>trace := trace w @ [Log lv]\<rparr>"

definition emit :: "event \<Rightarrow> world \<Rightarrow> world" where
  "emit e w = w\<lparr>trace := trace w @ [e]\<rparr>"

definition chan_open :: "world \<Rightarrow> chan \<Rightarrow> bool" where
  "chan_open w c \<longleftrightarrow> c < length (chans w) \<and> \<not> chans w ! c"

definition chan_closed :: "world \<Rightarrow> chan \<Rightarrow> bool" where
  "chan_closed w c \<longleftrightarrow> c < length (chans w) \<and> chans w ! c"

text \<open>\<^verbatim>\<open>make(chan ...)\<close>: a fresh, open channel.\<close>

definition make_chan :: "world \<Rightarrow> chan \<times> world" where
  "make_chan w = (length (chans w), w\<lparr>chans := chans w @ [False]\<rparr>)"

text \<open>
  \<^verbatim>\<open>close(c)\<close> on a non-nil channel: Go panics when the channel is already closed. A
  handle that was never made does not occur in a run; closing it is a panic here too.
\<close>

definition close_chan :: "chan \<Rightarrow> world \<Rightarrow> world exec" where
  "close_chan c w =
     (if chan_open w c
      then Return (emit (CloseChan c) (w\<lparr>chans := (chans w)[c := True]\<rparr>))
      else Panic)"

section \<open>The operations\<close>

definition NewNymSocketManager :: "string \<Rightarrow> bool \<Rightarrow> bool \<Rightarrow> error + NymSocketManager" where
  "NewNymSocketManager uri handler_defined logger_defined =
     (if length uri = 0 then Inl ErrEmptyURI
      else if \<not> handler_defined then Inl ErrNoHandler
      else if \<not> logger_defined then Inl ErrNoLogger
      else Inr \<lparr>clientID = [], connectionURI = uri, connection = None,
                selfInstanceStoppedChan = None, socketListener = None,
                closedSocketListenerChan = None, selfAddressReceivedChan = None\<rparr>)"

definition IsRunning :: "NymSocketManager \<Rightarrow> bool" where
  "IsRunning n \<longleftrightarrow> connection n \<noteq> None"

definition GetNymClientId :: "NymSocketManager \<Rightarrow> string" where
  "GetNymClientId n = clientID n"

text \<open>\<^verbatim>\<open>conn.WriteMessage\<close>: the attempt is counted and recorded with its outcome.\<close>

definition write_message :: "env \<Rightarrow> conn \<Rightarrow> kind \<Rightarrow> bytes \<Rightarrow> world \<Rightarrow> bool \<times> world" where
  "write_message env c k bs w =
     (let ok = \<not> writeFails env (writes w)
      in (ok, emit (WriteMessage c k bs ok) (w\<lparr>writes := Suc (writes w)\<rparr>)))"

definition Send :: "env \<Rightarrow> NymMessage \<Rightarrow> NymSocketManager \<times> world
    \<Rightarrow> error option \<times> NymSocketManager \<times> world" where
  "Send env msg nw =
     (case nw of (n, w) \<Rightarrow>
        (case connection n of
           None \<Rightarrow> (Some ErrNotStarted, n, log LvWarn w)
         | Some c \<Rightarrow>
             (case marshal env msg of
                None \<Rightarrow> (Some ErrMarshal, n, log LvWarn w)
              | Some msgBytes \<Rightarrow>
                  (case write_message env c TextMessage msgBytes w of
                     (ok, w') \<Rightarrow>
                       if \<not> ok then (Some ErrWrite, n, log LvWarn w')
                       else (None, n, w')))))"

text \<open>
  \<^verbatim>\<open>websocket.FormatCloseMessage(websocket.CloseNormalClosure, "")\<close>: the close code
  1000 as two big-endian bytes, followed by the empty text.
\<close>

definition closeNormalClosure :: bytes where
  "closeNormalClosure = [char_of (3::nat), char_of (232::nat)]"

definition sendCloseSignal :: "env \<Rightarrow> NymSocketManager \<times> world
    \<Rightarrow> error option \<times> NymSocketManager \<times> world" where
  "sendCloseSignal env nw =
     (case nw of (n, w) \<Rightarrow>
        (case connection n of
           None \<Rightarrow> (Some ErrNotStarted, n, log LvWarn w)
         | Some c \<Rightarrow>
             (case write_message env c CloseMessage closeNormalClosure w of
                (ok, w') \<Rightarrow>
                  if \<not> ok then (Some ErrWriteClose, n, log LvWarn w')
                  else (None, n, log LvDebug w'))))"

text \<open>
  The three steps of \<^verbatim>\<open>selfDestruct\<close> after its guard. \<open>ack\<close> says whether the receive
  loop closes \<^verbatim>\<open>closedSocketListenerChan\<close> before the 5 second deadline; a receive on
  a nil channel never succeeds, so the deadline wins there.
\<close>

definition closeListener :: "env \<Rightarrow> bool \<Rightarrow> NymSocketManager \<times> world \<Rightarrow> NymSocketManager \<times> world" where
  "closeListener env ack nw =
     (case nw of (n, w) \<Rightarrow>
        (case socketListener n of
           None \<Rightarrow> (n, w)
         | Some l \<Rightarrow>
             (case sendCloseSignal env (n, log LvTrace w) of
                (e, n1, w1) \<Rightarrow>
                  (let closed = (closedSocketListenerChan n1 \<noteq> None \<and> ack);
                       w2 = log LvDebug (emit (AwaitListenerClosed closed) w1);
                       w3 = log LvTrace w2
                   in (n1\<lparr>socketListener := None\<rparr>, w3)))))"

definition closeConnection :: "env \<Rightarrow> NymSocketManager \<times> world \<Rightarrow> NymSocketManager \<times> world" where
  "closeConnection env nw =
     (case nw of (n, w) \<Rightarrow>
        (case connection n of
           None \<Rightarrow> (n, w)
         | Some c \<Rightarrow>
             (let w1 = emit (ConnClose c (\<not> closeFails env c)) (log LvTrace w);
                  w2 = (if closeFails env c then log LvWarn w1 else w1)
              in (n\<lparr>connection := None\<rparr>, w2))))"

definition closeStoppedChan :: "NymSocketManager \<times> world \<Rightarrow> (NymSocketManager \<times> world) exec" where
  "closeStoppedChan nw =
     (case nw of (n, w) \<Rightarrow>
        (case selfInstanceStoppedChan n of
           None \<Rightarrow> Return (n, w)
         | Some s \<Rightarrow>
             (case close_chan s (log LvTrace w) of
                Panic \<Rightarrow> Panic
              | Return w1 \<Rightarrow> Return (n\<lparr>selfInstanceStoppedChan := None\<rparr>, w1))))"

definition selfDestruct :: "env \<Rightarrow> bool \<Rightarrow> NymSocketManager \<times> world
    \<Rightarrow> (NymSocketManager \<times> world) exec" where
  "selfDestruct env ack nw =
     (case nw of (n, w) \<Rightarrow>
        (let w0 = log LvDebug w in
         if selfInstanceStoppedChan n = None then Return (n, log LvDebug w0)
         else
           (case closeStoppedChan (closeConnection env (closeListener env ack (n, w0))) of
              Panic \<Rightarrow> Panic
            | Return (n', w') \<Rightarrow> Return (n', log LvDebug w'))))"

definition Stop :: "env \<Rightarrow> bool \<Rightarrow> NymSocketManager \<times> world \<Rightarrow> (NymSocketManager \<times> world) exec" where
  "Stop env ack nw =
     (case nw of (n, w) \<Rightarrow>
        (let w0 = log LvDebug w in
         if connection n = None then Return (n, w0)
         else
           (case selfDestruct env ack (n, w0) of
              Panic \<Rightarrow> Panic
            | Return (n', w') \<Rightarrow> Return (n', log LvDebug w'))))"

text \<open>
  The handler is called with the message and \<^verbatim>\<open>n.Send\<close>; what it does with them is
  the list of replies it sends, each through \<open>Send\<close>, whose error is the handler's to
  look at.
\<close>

fun send_replies :: "env \<Rightarrow> NymMessage list \<Rightarrow> NymSocketManager \<times> world \<Rightarrow> NymSocketManager \<times> world" where
  "send_replies env [] nw = nw"
| "send_replies env (m # ms) nw = send_replies env ms (snd (Send env m nw))"

definition call_messageHandler :: "env \<Rightarrow> NymReceived \<Rightarrow> NymSocketManager \<times> world
    \<Rightarrow> NymSocketManager \<times> world" where
  "call_messageHandler env msg nw =
     (case nw of (n, w) \<Rightarrow> send_replies env (messageHandler env msg) (n, emit (Handler msg) w))"

definition messageDispatcher :: "env \<Rightarrow> NymSocketManager \<times> world \<Rightarrow> bytes
    \<Rightarrow> (NymSocketManager \<times> world) exec" where
  "messageDispatcher env nw s =
     (case nw of (n, w) \<Rightarrow>
        (case unmarshalMap env s of
           None \<Rightarrow> Return (n, log LvWarn w)
         | Some receivedMessageJSON \<Rightarrow>
             (case receivedMessageJSON ''type'' of
                None \<Rightarrow> Return (n, log LvWarn w)
              | Some t \<Rightarrow>
                  if t = JStr (NymSelfAddressReplyType env) then
                    (case unmarshalSelfAddressReply env s of
                       None \<Rightarrow> Return (n, log LvWarn w)
                     | Some reply \<Rightarrow>
                         (let n1 = n\<lparr>clientID := reply_Address reply\<rparr>;
                              w1 = log LvDebug w
                          in case selfAddressReceivedChan n1 of
                               None \<Rightarrow> Return (n1, w1)
                             | Some c \<Rightarrow>
                                 (case close_chan c w1 of
                                    Panic \<Rightarrow> Panic
                                  | Return w2 \<Rightarrow> Return (n1, w2))))
                  else if t = JStr (NymErrorType env) then
                    (case unmarshalError env s of
                       None \<Rightarrow> Return (n, log LvWarn w)
                     | Some reply \<Rightarrow> Return (n, log LvError w))
                  else if t = JStr (NymReceivedType env) then
                    (case unmarshalReceived env s of
                       None \<Rightarrow> Return (n, log LvWarn w)
                     | Some msg \<Rightarrow> Return (call_messageHandler env msg (n, log LvDebug w)))
                  else Return (n, log LvWarn w))))"

text \<open>The receive loop hands frames to the dispatcher one after the other.\<close>

fun dispatch_all :: "env \<Rightarrow> bytes list \<Rightarrow> NymSocketManager \<times> world
    \<Rightarrow> (NymSocketManager \<times> world) exec" where
  "dispatch_all env [] nw = Return nw"
| "dispatch_all env (s # ss) nw =
     (case messageDispatcher env nw s of
        Panic \<Rightarrow> Panic
      | Return nw' \<Rightarrow> dispatch_all env ss nw')"

text \<open>
  What the outside does during one call of \<^verbatim>\<open>Start\<close>: whether the dial succeeds, what
  \<^verbatim>\<open>NewSocketListener\<close> (not in this file) returns, the frames the receive loop
  dispatches while \<^verbatim>\<open>Start\<close> waits in its \<^verbatim>\<open>select\<close>, and, should teardown run, whether
  the receive loop confirms its end in time.
\<close>

datatype listener_outcome =
    ListenerOk listener lchan
  | ListenerErr "listener option" "lchan option"

record start_script =
  dial_ok :: bool
  listener_result :: listener_outcome
  inbound :: "bytes list"
  listener_acks :: bool

type_synonym start_result = "((chan option \<times> error option) \<times> NymSocketManager \<times> world) exec"

text \<open>The failure paths of \<^verbatim>\<open>Start\<close>: warn, \<^verbatim>\<open>n.selfDestruct()\<close>, return the error.\<close>

definition cancel_progress :: "env \<Rightarrow> bool \<Rightarrow> error \<Rightarrow> NymSocketManager \<times> world \<Rightarrow> start_result" where
  "cancel_progress env ack err nw =
     (case nw of (n, w) \<Rightarrow>
        (case selfDestruct env ack (n, log LvWarn w) of
           Panic \<Rightarrow> Panic
         | Return (n', w') \<Rightarrow> Return ((None, Some err), n', w')))"

text \<open>
  The \<^verbatim>\<open>select\<close> of \<^verbatim>\<open>Start\<close>: the frames of the script are dispatched; then the first
  case is taken when the identity-received channel has been closed, the timeout case
  otherwise.
\<close>

definition awaitSelfAddress :: "env \<Rightarrow> start_script \<Rightarrow> NymSocketManager \<times> world \<Rightarrow> start_result" where
  "awaitSelfAddress env sc nw =
     (case dispatch_all env (inbound sc) nw of
        Panic \<Rightarrow> Panic
      | Return (n, w) \<Rightarrow>
          (case selfAddressReceivedChan n of
             None \<Rightarrow> cancel_progress env (listener_acks sc) ErrCollectClientID (n, w)
           | Some a \<Rightarrow>
               if chan_closed w a then
                 (let w1 = log LvDebug w;
                      n1 = n\<lparr>selfAddressReceivedChan := None\<rparr>
                  in case make_chan w1 of
                       (s, w2) \<Rightarrow>
                         Return ((Some s, None), n1\<lparr>selfInstanceStoppedChan := Some s\<rparr>,
                                 log LvDebug w2))
               else cancel_progress env (listener_acks sc) ErrCollectClientID (n, w)))"

definition requestSelfAddress :: "env \<Rightarrow> start_script \<Rightarrow> NymSocketManager \<times> world \<Rightarrow> start_result" where
  "requestSelfAddress env sc nw =
     (case nw of (n, w) \<Rightarrow>
        (case make_chan w of
           (a, w1) \<Rightarrow>
             (case Send env NewSelfAddressRequest (n\<lparr>selfAddressReceivedChan := Some a\<rparr>, w1) of
                (e, n2, w2) \<Rightarrow>
                  if e \<noteq> None then cancel_progress env (listener_acks sc) ErrSendRequest (n2, w2)
                  else awaitSelfAddress env sc (n2, w2))))"

text \<open>
  \<^verbatim>\<open>Start\<close>. The dialler's three results are assigned to \<^verbatim>\<open>n.connection\<close>, the ignored
  response and the error at once; a failed dial returns a nil connection, so the field
  is nil again on that path. The same assignment form stores what
  \<^verbatim>\<open>NewSocketListener\<close> returns, also when it fails.
\<close>

definition Start :: "env \<Rightarrow> start_script \<Rightarrow> NymSocketManager \<times> world \<Rightarrow> start_result" where
  "Start env sc nw =
     (case nw of (n, w) \<Rightarrow>
        (let w0 = log LvDebug w in
         if connection n \<noteq> None then Return ((None, None), n, log LvWarn w0)
         else if \<not> dial_ok sc then
           Return ((None, Some ErrDial), n\<lparr>connection := None\<rparr>,
                   log LvWarn (emit (Dial (connectionURI n) False) w0))
         else
           (let c = conns w0;
                n1 = n\<lparr>connection := Some c\<rparr>;
                w1 = emit (Dial (connectionURI n) True) (w0\<lparr>conns := Suc c\<rparr>)
            in case listener_result sc of
                 ListenerErr l lc \<Rightarrow>
                   cancel_progress env (listener_acks sc) ErrListener
                     (n1\<lparr>socketListener := l, closedSocketListenerChan := lc\<rparr>,
                      emit (NewListener c False) w1)
               | ListenerOk l lc \<Rightarrow>
                   requestSelfAddress env sc
                     (n1\<lparr>socketListener := Some l, closedSocketListenerChan := Some lc\<rparr>,
                      emit (Listen l) (emit (NewListener c True) w1)))))"

section \<open>A concrete environment\<close>

text \<open>
  A small peer to run the operations on: a frame is decoded by its first character
  (\<open>I\<close>: identity reply carrying the rest as address, \<open>E\<close>: error reply, \<open>R\<close>: application
  data, \<open>U\<close>: an unknown discriminator, \<open>N\<close>: an object without \<open>type\<close>, anything else
  does not parse); the handler answers every message with one reply; no write and no
  close fails.
\<close>

definition demo_unmarshalMap :: "bytes \<Rightarrow> (string \<rightharpoonup> json) option" where
  "demo_unmarshalMap s =
     (case s of
        [] \<Rightarrow> None
      | c # r \<Rightarrow>
          if c = CHR ''I'' then Some [''type'' \<mapsto> JStr ''selfAddress'', ''address'' \<mapsto> JStr r]
          else if c = CHR ''E'' then Some [''type'' \<mapsto> JStr ''error'', ''message'' \<mapsto> JStr r]
          else if c = CHR ''R'' then Some [''type'' \<mapsto> JStr ''received'', ''message'' \<mapsto> JStr r]
          else if c = CHR ''U'' then Some [''type'' \<mapsto> JStr ''other'']
          else if c = CHR ''N'' then Some [''message'' \<mapsto> JStr r]
          else None)"

definition demo_env :: env where
  "demo_env =
     \<lparr>unmarshalMap = demo_unmarshalMap,
      unmarshalSelfAddressReply =
        (\<lambda>s. Some \<lparr>reply_Type = ''selfAddress'', reply_Address = tl s\<rparr>),
      unmarshalError = (\<lambda>s. Some \<lparr>error_Type = ''error'', error_Message = tl s\<rparr>),
      unmarshalReceived = (\<lambda>s. Some (tl s)),
      marshal = (\<lambda>m. case m of SelfAddressRequest \<Rightarrow> Some ''Q'' | AppMessage p \<Rightarrow> Some (CHR ''S'' # p)),
      NymSelfAddressReplyType = ''selfAddress'',
      NymErrorType = ''error'',
      NymReceivedType = ''received'',
      messageHandler = (\<lambda>msg. [AppMessage msg]),
      writeFails = (\<lambda>k. False),
      closeFails = (\<lambda>c. False)\<rparr>"

definition new_world :: world where
  "new_world = \<lparr>chans = [], conns = 0, writes = 0, trace = []\<rparr>"

definition new_manager :: NymSocketManager where
  "new_manager =
     \<lparr>clientID = [], connectionURI = ''ws://peer'', connection = None,
      selfInstanceStoppedChan = None, socketListener = None,
      closedSocketListenerChan = None, selfAddressReceivedChan = None\<rparr>"

definition demo_script :: "bytes list \<Rightarrow> start_script" where
  "demo_script frames =
     \<lparr>dial_ok = True, listener_result = ListenerOk 0 0, inbound = frames, listener_acks = True\<rparr>"

text \<open>
  The state a new manager is in after \<^verbatim>\<open>Start\<close> against this peer when the identity
  reply \<open>Ialice\<close> arrives in time, and the state it is in when no frame arrives at all.
\<close>

definition ready_manager :: NymSocketManager where
  "ready_manager =
     \<lparr>clientID = ''alice'', connectionURI = ''ws://peer'', connection = Some 0,
      selfInstanceStoppedChan = Some 1, socketListener = Some 0,
      closedSocketListenerChan = Some 0, selfAddressReceivedChan = None\<rparr>"

definition ready_world :: world where
  "ready_world =
     \<lparr>chans = [True, False], conns = 1, writes = 1,
      trace = [Log LvDebug, Dial ''ws://peer'' True, NewListener 0 True, Listen 0,
               WriteMessage 0 TextMessage ''Q'' True, Log LvDebug, CloseChan 0,
               Log LvDebug, Log LvDebug]\<rparr>"

definition stalled_manager :: NymSocketManager where
  "stalled_manager =
     \<lparr>clientID = [], connectionURI = ''ws://peer'', connection = Some 0,
      selfInstanceStoppedChan = None, socketListener = Some 0,
      closedSocketListenerChan = Some 0, selfAddressReceivedChan = Some 0\<rparr>"

definition stalled_world :: world where
  "stalled_world =
     \<lparr>chans = [False], conns = 1, writes = 1,
      trace = [Log LvDebug, Dial ''ws://peer'' True, NewListener 0 True, Listen 0,
               WriteMessage 0 TextMessage ''Q'' True, Log LvWarn, Log LvDebug,
               Log LvDebug]\<rparr>"

text \<open>The state after \<^verbatim>\<open>Stop\<close> on the ready manager, the receive loop confirming in time.\<close>

definition stopped_manager :: NymSocketManager where
  "stopped_manager =
     \<lparr>clientID = ''alice'', connectionURI = ''ws://peer'', connection = None,
      selfInstanceStoppedChan = None, socketListener = None,
      closedSocketListenerChan = Some 0, selfAddressReceivedChan = None\<rparr>"

definition stopped_world :: world where
  "stopped_world =
     \<lparr>chans = [True, True], conns = 1, writes = 2,
      trace = [Log LvDebug, Dial ''ws://peer'' True, NewListener 0 True, Listen 0,
               WriteMessage 0 TextMessage ''Q'' True, Log LvDebug, CloseChan 0,
               Log LvDebug, Log LvDebug, Log LvDebug, Log LvDebug, Log LvTrace,
               WriteMessage 0 CloseMessage closeNormalClosure True, Log LvDebug,
               AwaitListenerClosed True, Log LvDebug, Log LvTrace, Log LvTrace,
               ConnClose 0 True, Log LvTrace, CloseChan 1, Log LvDebug, Log LvDebug]\<rparr>"

section \<open>Notions the properties are stated with\<close>

text \<open>The discriminator of a frame: the value under \<open>type\<close> of its generic decoding.\<close>

definition frame_type :: "env \<Rightarrow> bytes \<Rightarrow> json option" where
  "frame_type env s = (case unmarshalMap env s of None \<Rightarrow> None | Some m \<Rightarrow> m ''type'')"

text \<open>
  The address an identity-reply frame carries: the frame has the identity-reply
  discriminator and decodes as \<^verbatim>\<open>NymSelfAddressReply\<close>.
\<close>

definition identity_reply_address :: "env \<Rightarrow> bytes \<Rightarrow> string option" where
  "identity_reply_address env s =
     (if frame_type env s = Some (JStr (NymSelfAddressReplyType env))
      then map_option reply_Address (unmarshalSelfAddressReply env s)
      else None)"

text \<open>The address of the most recently received identity reply among the frames.\<close>

fun last_identity_reply :: "env \<Rightarrow> bytes list \<Rightarrow> string option" where
  "last_identity_reply env [] = None"
| "last_identity_reply env (s # ss) =
     (case last_identity_reply env ss of
        Some a \<Rightarrow> Some a
      | None \<Rightarrow> identity_reply_address env s)"

text \<open>The four kinds of frame the dispatcher only logs.\<close>

definition unparseable :: "env \<Rightarrow> bytes \<Rightarrow> bool" where
  "unparseable env s \<longleftrightarrow> unmarshalMap env s = None"

definition lacks_type :: "env \<Rightarrow> bytes \<Rightarrow> bool" where
  "lacks_type env s \<longleftrightarrow> unmarshalMap env s \<noteq> None \<and> frame_type env s = None"

definition unrecognized_type :: "env \<Rightarrow> bytes \<Rightarrow> bool" where
  "unrecognized_type env s \<longleftrightarrow>
     (case frame_type env s of
        None \<Rightarrow> False
      | Some t \<Rightarrow> t \<noteq> JStr (NymSelfAddressReplyType env) \<and> t \<noteq> JStr (NymErrorType env)
                  \<and> t \<noteq> JStr (NymReceivedType env))"

definition error_reply :: "env \<Rightarrow> bytes \<Rightarrow> bool" where
  "error_reply env s \<longleftrightarrow> frame_type env s = Some (JStr (NymErrorType env))"

text \<open>The events of a trace other than log lines.\<close>

fun is_log :: "event \<Rightarrow> bool" where
  "is_log (Log lv) = True"
| "is_log e = False"

definition effects :: "event list \<Rightarrow> event list" where
  "effects tr = filter (\<lambda>e. \<not> is_log e) tr"

text \<open>A sequence of \<^verbatim>\<open>Stop\<close> calls, one answer of the receive loop for each.\<close>

fun stop_all :: "env \<Rightarrow> bool list \<Rightarrow> NymSocketManager \<times> world \<Rightarrow> (NymSocketManager \<times> world) exec" where
  "stop_all env [] nw = Return nw"
| "stop_all env (ack # acks) nw =
     (case Stop env ack nw of
        Panic \<Rightarrow> Panic
      | Return nw' \<Rightarrow> stop_all env acks nw')"

section \<open>Frame lemmas\<close>

lemma Send_frame:
  "\<exists>e w'. Send env msg (n, w) = (e, n, w') \<and> chans w' = chans w \<and> conns w' = conns w"
  by (auto simp: Send_def write_message_def log_def emit_def Let_def split: option.split prod.split)

lemma send_replies_frame:
  "\<exists>w'. send_replies env ms (n, w) = (n, w') \<and> chans w' = chans w \<and> conns w' = conns w"
proof (induction ms arbitrary: w)
  case Nil
  show ?case by simp
next
  case (Cons m ms)
  obtain e w1 where s: "Send env m (n, w) = (e, n, w1)" and c: "chans w1 = chans w" "conns w1 = conns w"
    using Send_frame by blast
  from Cons.IH [of w1] obtain w' where "send_replies env ms (n, w1) = (n, w')"
    "chans w' = chans w1" "conns w' = conns w1" by blast
  with s c show ?case by simp
qed

lemma call_messageHandler_frame:
  "\<exists>w'. call_messageHandler env msg (n, w) = (n, w') \<and> chans w' = chans w \<and> conns w' = conns w"
  using send_replies_frame [of env "messageHandler env msg" n "emit (Handler msg) w"]
  by (simp add: call_messageHandler_def emit_def)

lemma call_messageHandler_dest:
  "call_messageHandler env msg (n, w) = (n', w') \<Longrightarrow>
   n' = n \<and> chans w' = chans w \<and> conns w' = conns w"
  using call_messageHandler_frame [of env msg n w] by auto

lemma dispatch_identity:
  assumes "identity_reply_address env s = Some a"
    and "messageDispatcher env (n, w) s = Return (n', w')"
  shows "n' = n\<lparr>clientID := a\<rparr>"
  using assms
  by (auto simp: messageDispatcher_def identity_reply_address_def frame_type_def Let_def
      split: option.splits if_splits exec.splits)

lemma dispatch_other:
  assumes "identity_reply_address env s = None"
    and "messageDispatcher env (n, w) s = Return (n', w')"
  shows "n' = n \<and> chans w' = chans w \<and> conns w' = conns w"
  using assms
  by (auto simp: messageDispatcher_def identity_reply_address_def frame_type_def log_def
      split: option.splits if_splits dest!: call_messageHandler_dest)

lemma dispatch_all_clientID:
  "dispatch_all env fs (n, w) = Return (n', w') \<Longrightarrow>
   clientID n' = (case last_identity_reply env fs of None \<Rightarrow> clientID n | Some a \<Rightarrow> a)
   \<and> (last_identity_reply env fs = None \<longrightarrow> n' = n \<and> chans w' = chans w)"
proof (induction fs arbitrary: n w)
  case Nil
  then show ?case by simp
next
  case (Cons s ss)
  then obtain n1 w1 where d: "messageDispatcher env (n, w) s = Return (n1, w1)"
    and r: "dispatch_all env ss (n1, w1) = Return (n', w')"
    by (auto split: exec.splits)
  note ih = Cons.IH [OF r]
  show ?case
  proof (cases "identity_reply_address env s")
    case None
    with dispatch_other [OF None d] ih show ?thesis
      by (auto split: option.splits)
  next
    case (Some a)
    with dispatch_identity [OF Some d] ih show ?thesis
      by (auto split: option.splits)
  qed
qed

lemma last_identity_reply_append:
  "last_identity_reply env (xs @ ys) =
     (case last_identity_reply env ys of None \<Rightarrow> last_identity_reply env xs | Some a \<Rightarrow> Some a)"
  by (induction xs) (auto split: option.splits)

lemma demo_Start_ready:
  "Start demo_env (demo_script [''Ialice'']) (new_manager, new_world)
     = Return ((Some 1, None), ready_manager, ready_world)"
  by (simp add: Start_def requestSelfAddress_def awaitSelfAddress_def messageDispatcher_def
      Send_def write_message_def close_chan_def chan_open_def chan_closed_def make_chan_def
      log_def emit_def NewSelfAddressRequest_def demo_env_def demo_unmarshalMap_def
      demo_script_def new_manager_def new_world_def ready_manager_def ready_world_def Let_def)

lemma demo_Start_stalled:
  "Start demo_env (demo_script []) (new_manager, new_world)
     = Return ((None, Some ErrCollectClientID), stalled_manager, stalled_world)"
  by (simp add: Start_def requestSelfAddress_def awaitSelfAddress_def cancel_progress_def
      selfDestruct_def Send_def write_message_def chan_closed_def make_chan_def
      log_def emit_def NewSelfAddressRequest_def demo_env_def
      demo_script_def new_manager_def new_world_def stalled_manager_def stalled_world_def Let_def)

section \<open>Teardown lemmas\<close>

lemma selfDestruct_guard:
  "selfInstanceStoppedChan n = None \<Longrightarrow>
   selfDestruct env ack (n, w) = Return (n, w\<lparr>trace := trace w @ [Log LvDebug, Log LvDebug]\<rparr>)"
  by (simp add: selfDestruct_def log_def)

lemma sendCloseSignal_frame:
  "\<exists>e w'. sendCloseSignal env (n, w) = (e, n, w') \<and> chans w' = chans w \<and> conns w' = conns w"
  by (auto simp: sendCloseSignal_def write_message_def log_def emit_def Let_def split: option.split)

lemma closeListener_frame:
  "\<exists>w'. closeListener env ack (n, w) = (n\<lparr>socketListener := None\<rparr>, w')
     \<and> chans w' = chans w \<and> conns w' = conns w"
  using sendCloseSignal_frame [of env n "log LvTrace w"]
  by (auto simp: closeListener_def log_def emit_def Let_def split: option.split)

lemma closeConnection_frame:
  "\<exists>w'. closeConnection env (n, w) = (n\<lparr>connection := None\<rparr>, w')
     \<and> chans w' = chans w \<and> conns w' = conns w"
  by (auto simp: closeConnection_def log_def emit_def Let_def split: option.split)

lemma selfDestruct_teardown:
  assumes "selfInstanceStoppedChan n = Some s"
  shows "(chan_open w s \<longrightarrow>
            (\<exists>w'. selfDestruct env ack (n, w)
               = Return (n\<lparr>socketListener := None, connection := None,
                           selfInstanceStoppedChan := None\<rparr>, w')))
       \<and> (\<not> chan_open w s \<longrightarrow> selfDestruct env ack (n, w) = Panic)"
proof -
  obtain w1 where l: "closeListener env ack (n, log LvDebug w) = (n\<lparr>socketListener := None\<rparr>, w1)"
    and c1: "chans w1 = chans w"
    using closeListener_frame [of env ack n "log LvDebug w"] by (auto simp: log_def)
  obtain w2 where c: "closeConnection env (n\<lparr>socketListener := None\<rparr>, w1)
      = (n\<lparr>socketListener := None, connection := None\<rparr>, w2)"
    and c2: "chans w2 = chans w1"
    using closeConnection_frame [of env "n\<lparr>socketListener := None\<rparr>" w1] by auto
  have o: "chan_open (log LvTrace w2) s = chan_open w s"
    using c1 c2 by (simp add: chan_open_def log_def)
  show ?thesis
    using assms l c o
    by (auto simp: selfDestruct_def closeStoppedChan_def close_chan_def Let_def)
qed

lemma Stop_again:
  assumes "Stop env ack (n, w) = Return (n1, w1)"
  shows "\<exists>k. Stop env ack' (n1, w1)
           = Return (n1, w1\<lparr>trace := trace w1 @ replicate k (Log LvDebug)\<rparr>)
         \<and> Stop env ack' (n1, w1) = Stop env ack'' (n1, w1)"
proof (cases "connection n = None")
  case True
  with assms have "n1 = n" by (auto simp: Stop_def Let_def)
  with True have "Stop env ack' (n1, w1) = Return (n1, w1\<lparr>trace := trace w1 @ replicate 1 (Log LvDebug)\<rparr>)"
    "Stop env ack' (n1, w1) = Stop env ack'' (n1, w1)"
    by (simp_all add: Stop_def log_def)
  then show ?thesis by blast
next
  case False
  show ?thesis
  proof (cases "selfInstanceStoppedChan n")
    case None
    with False assms have "n1 = n"
      by (auto simp: Stop_def Let_def selfDestruct_guard)
    with False None have "Stop env ack' (n1, w1) = Return (n1, w1\<lparr>trace := trace w1 @ replicate 4 (Log LvDebug)\<rparr>)"
    "Stop env ack' (n1, w1) = Stop env ack'' (n1, w1)"
      by (auto simp: Stop_def Let_def selfDestruct_guard log_def numeral_eq_Suc)
    then show ?thesis by blast
  next
    case (Some s)
    from selfDestruct_teardown [OF Some, of "log LvDebug w" env ack] False assms
    have "connection n1 = None"
      by (cases "chan_open (log LvDebug w) s") (auto simp: Stop_def Let_def)
    then have "Stop env ack' (n1, w1) = Return (n1, w1\<lparr>trace := trace w1 @ replicate 1 (Log LvDebug)\<rparr>)"
    "Stop env ack' (n1, w1) = Stop env ack'' (n1, w1)"
      by (simp_all add: Stop_def log_def)
    then show ?thesis by blast
  qed
qed

lemma stop_all_after_Stop:
  assumes "Stop env ack (n, w) = Return (n1, w1)"
  shows "\<exists>k. stop_all env acks (n1, w1)
           = Return (n1, w1\<lparr>trace := trace w1 @ replicate k (Log LvDebug)\<rparr>)"
  using assms
proof (induction acks arbitrary: n w n1 w1 ack)
  case Nil
  have "stop_all env [] (n1, w1) = Return (n1, w1\<lparr>trace := trace w1 @ replicate 0 (Log LvDebug)\<rparr>)"
    by simp
  then show ?case by blast
next
  case (Cons a acks)
  from Stop_again [OF Cons.prems, of a a] obtain k where
    s: "Stop env a (n1, w1) = Return (n1, w1\<lparr>trace := trace w1 @ replicate k (Log LvDebug)\<rparr>)"
    by blast
  from Cons.IH [OF s] obtain j where
    "stop_all env acks (n1, w1\<lparr>trace := trace w1 @ replicate k (Log LvDebug)\<rparr>)
       = Return (n1, w1\<lparr>trace := trace w1 @ replicate k (Log LvDebug) @ replicate j (Log LvDebug)\<rparr>)"
    by auto
  with s have "stop_all env (a # acks) (n1, w1)
       = Return (n1, w1\<lparr>trace := trace w1 @ replicate (k + j) (Log LvDebug)\<rparr>)"
    by (simp add: replicate_add)
  then show ?case by blast
qed

lemma selfDestruct_keeps_clientID:
  "selfDestruct env ack (n, w) = Return (n', w') \<Longrightarrow> clientID n' = clientID n"
proof (cases "selfInstanceStoppedChan n")
  case None
  assume "selfDestruct env ack (n, w) = Return (n', w')"
  with None show ?thesis by (simp add: selfDestruct_guard)
next
  case (Some s)
  assume "selfDestruct env ack (n, w) = Return (n', w')"
  with selfDestruct_teardown [OF Some, of w env ack] show ?thesis
    by (cases "chan_open w s") auto
qed

lemma Stop_keeps_clientID:
  "Stop env ack (n, w) = Return (n', w') \<Longrightarrow> clientID n' = clientID n"
  by (auto simp: Stop_def Let_def split: if_splits exec.splits dest: selfDestruct_keeps_clientID)

lemma Stop_returns:
  assumes "\<forall>s. selfInstanceStoppedChan n = Some s \<longrightarrow> chan_open w s"
  shows "\<exists>n' w'. Stop env ack (n, w) = Return (n', w')
           \<and> (selfInstanceStoppedChan n \<noteq> None \<longrightarrow> connection n' = None)"
proof (cases "selfInstanceStoppedChan n")
  case None
  then show ?thesis by (simp add: Stop_def Let_def selfDestruct_guard)
next
  case (Some s)
  with assms have "chan_open (log LvDebug w) s" by (simp add: chan_open_def log_def)
  with selfDestruct_teardown [OF Some, of "log LvDebug w" env ack] Some
  show ?thesis by (auto simp: Stop_def Let_def)
qed

lemma selfDestruct_ready:
  assumes "connection n = Some c" "socketListener n = Some l"
    "closedSocketListenerChan n = Some lc" "selfInstanceStoppedChan n = Some s"
    "chan_open w s"
  shows "selfDestruct env ack (n, w) =
     Return (n\<lparr>socketListener := None, connection := None, selfInstanceStoppedChan := None\<rparr>,
             w\<lparr>chans := (chans w)[s := True], writes := Suc (writes w),
               trace := trace w @
                 [Log LvDebug, Log LvTrace,
                  WriteMessage c CloseMessage closeNormalClosure (\<not> writeFails env (writes w)),
                  Log (if writeFails env (writes w) then LvWarn else LvDebug),
                  AwaitListenerClosed ack, Log LvDebug, Log LvTrace, Log LvTrace,
                  ConnClose c (\<not> closeFails env c)]
                 @ (if closeFails env c then [Log LvWarn] else [])
                 @ [Log LvTrace, CloseChan s, Log LvDebug]\<rparr>)"
  using assms
  by (simp add: selfDestruct_def closeListener_def sendCloseSignal_def write_message_def
      closeConnection_def closeStoppedChan_def close_chan_def chan_open_def log_def emit_def
      Let_def)

lemma demo_Stop_ready:
  "Stop demo_env True (ready_manager, ready_world) = Return (stopped_manager, stopped_world)"
  by (simp add: Stop_def selfDestruct_def closeListener_def sendCloseSignal_def
      write_message_def closeConnection_def closeStoppedChan_def close_chan_def chan_open_def
      log_def emit_def Let_def demo_env_def ready_manager_def ready_world_def
      stopped_manager_def stopped_world_def)

lemma demo_selfDestruct_ready:
  "selfDestruct demo_env True (ready_manager, ready_world\<lparr>trace := trace ready_world @ [Log LvDebug]\<rparr>)
     = Return (stopped_manager, stopped_world\<lparr>trace := butlast (trace stopped_world)\<rparr>)"
  by (simp add: selfDestruct_def closeListener_def sendCloseSignal_def
      write_message_def closeConnection_def closeStoppedChan_def close_chan_def chan_open_def
      log_def emit_def Let_def demo_env_def ready_manager_def ready_world_def
      stopped_manager_def stopped_world_def)

section \<open>Dispatch of the frames that are only logged\<close>

lemma dispatch_unparseable:
  "unparseable env s \<Longrightarrow>
   messageDispatcher env (n, w) s = Return (n, w\<lparr>trace := trace w @ [Log LvWarn]\<rparr>)"
  by (simp add: messageDispatcher_def unparseable_def log_def)

lemma dispatch_lacks_type:
  "lacks_type env s \<Longrightarrow>
   messageDispatcher env (n, w) s = Return (n, w\<lparr>trace := trace w @ [Log LvWarn]\<rparr>)"
  by (auto simp: messageDispatcher_def lacks_type_def frame_type_def log_def)

lemma dispatch_unrecognized_type:
  assumes "unrecognized_type env s"
  shows "messageDispatcher env (n, w) s = Return (n, w\<lparr>trace := trace w @ [Log LvWarn]\<rparr>)"
proof -
  from assms obtain m t where "unmarshalMap env s = Some m" "m ''type'' = Some t"
    "t \<noteq> JStr (NymSelfAddressReplyType env)" "t \<noteq> JStr (NymErrorType env)"
    "t \<noteq> JStr (NymReceivedType env)"
    by (auto simp: unrecognized_type_def frame_type_def split: option.splits)
  then show ?thesis by (simp add: messageDispatcher_def log_def)
qed

lemma dispatch_error_reply:
  assumes "error_reply env s" "NymErrorType env \<noteq> NymSelfAddressReplyType env"
  shows "messageDispatcher env (n, w) s
     = Return (n, w\<lparr>trace := trace w @ [Log (if unmarshalError env s = None then LvWarn else LvError)]\<rparr>)"
proof -
  from assms(1) obtain m where "unmarshalMap env s = Some m"
    "m ''type'' = Some (JStr (NymErrorType env))"
    by (auto simp: error_reply_def frame_type_def split: option.splits)
  with assms(2) show ?thesis
    by (cases "unmarshalError env s") (simp_all add: messageDispatcher_def log_def)
qed

section \<open>The paths through Start\<close>

lemma cancel_progress_result:
  assumes "cancel_progress env ack err (n, w) = Return (r, n', w')"
  shows "r = (None, Some err) \<and> clientID n' = clientID n
     \<and> (selfInstanceStoppedChan n = None \<longrightarrow> n' = n)"
proof -
  from assms obtain v where s: "selfDestruct env ack (n, log LvWarn w) = Return (n', v)"
    and r: "r = (None, Some err)"
    by (auto simp: cancel_progress_def split: exec.splits)
  from selfDestruct_keeps_clientID [OF s] have c: "clientID n' = clientID n" .
  have "selfInstanceStoppedChan n = None \<longrightarrow> n' = n"
    using s by (auto simp: selfDestruct_guard)
  with r c show ?thesis by simp
qed

lemma dispatch_fields:
  assumes "messageDispatcher env (n, w) s = Return (n', w')"
  shows "connection n' = connection n
     \<and> selfInstanceStoppedChan n' = selfInstanceStoppedChan n
     \<and> socketListener n' = socketListener n
     \<and> closedSocketListenerChan n' = closedSocketListenerChan n
     \<and> selfAddressReceivedChan n' = selfAddressReceivedChan n
     \<and> connectionURI n' = connectionURI n"
proof (cases "identity_reply_address env s")
  case None
  from dispatch_other [OF None assms] show ?thesis by simp
next
  case (Some a)
  from dispatch_identity [OF Some assms] show ?thesis by simp
qed

lemma dispatch_all_fields:
  "dispatch_all env fs (n, w) = Return (n', w') \<Longrightarrow>
     connection n' = connection n
     \<and> selfInstanceStoppedChan n' = selfInstanceStoppedChan n
     \<and> socketListener n' = socketListener n
     \<and> closedSocketListenerChan n' = closedSocketListenerChan n
     \<and> selfAddressReceivedChan n' = selfAddressReceivedChan n
     \<and> connectionURI n' = connectionURI n"
proof (induction fs arbitrary: n w)
  case Nil
  then show ?case by simp
next
  case (Cons s ss)
  then obtain n1 w1 where d: "messageDispatcher env (n, w) s = Return (n1, w1)"
    and r: "dispatch_all env ss (n1, w1) = Return (n', w')"
    by (auto split: exec.splits)
  from Cons.IH [OF r] dispatch_fields [OF d] show ?case by simp
qed


lemma awaitSelfAddress_cases:
  assumes "awaitSelfAddress env sc (n, w) = Return (r, n1, w1)"
  shows "\<exists>nd wd. dispatch_all env (inbound sc) (n, w) = Return (nd, wd)
     \<and> ((\<exists>a. selfAddressReceivedChan nd = Some a \<and> chan_closed wd a
            \<and> r = (Some (length (chans wd)), None)
            \<and> n1 = nd\<lparr>selfAddressReceivedChan := None,
                       selfInstanceStoppedChan := Some (length (chans wd))\<rparr>
            \<and> chan_open w1 (length (chans wd)))
        \<or> cancel_progress env (listener_acks sc) ErrCollectClientID (nd, wd)
            = Return (r, n1, w1))"
proof -
  from assms obtain nd wd where d: "dispatch_all env (inbound sc) (n, w) = Return (nd, wd)"
    by (auto simp: awaitSelfAddress_def split: exec.splits)
  show ?thesis
  proof (cases "selfAddressReceivedChan nd")
    case None
    with assms d show ?thesis by (simp add: awaitSelfAddress_def)
  next
    case (Some a)
    show ?thesis
    proof (cases "chan_closed wd a")
      case True
      with assms d Some show ?thesis
        by (auto simp: awaitSelfAddress_def make_chan_def Let_def log_def chan_open_def
            nth_append)
    next
      case False
      with assms d Some show ?thesis by (simp add: awaitSelfAddress_def)
    qed
  qed
qed

lemma awaitSelfAddress_clientID:
  assumes "awaitSelfAddress env sc (n, w) = Return (r, n1, w1)"
  shows "clientID n1 = (case last_identity_reply env (inbound sc) of
                          None \<Rightarrow> clientID n | Some a \<Rightarrow> a)"
proof -
  from awaitSelfAddress_cases [OF assms] obtain nd wd where
    d: "dispatch_all env (inbound sc) (n, w) = Return (nd, wd)"
    and c: "n1 = nd\<lparr>selfAddressReceivedChan := None,
                       selfInstanceStoppedChan := Some (length (chans wd))\<rparr>
        \<or> cancel_progress env (listener_acks sc) ErrCollectClientID (nd, wd)
            = Return (r, n1, w1)"
    by blast
  from c have "clientID n1 = clientID nd"
  proof
    assume "n1 = nd\<lparr>selfAddressReceivedChan := None,
                       selfInstanceStoppedChan := Some (length (chans wd))\<rparr>"
    then show ?thesis by simp
  next
    assume "cancel_progress env (listener_acks sc) ErrCollectClientID (nd, wd)
            = Return (r, n1, w1)"
    from cancel_progress_result [OF this] show ?thesis by simp
  qed
  with dispatch_all_clientID [OF d] show ?thesis by simp
qed

lemma awaitSelfAddress_success:
  assumes "awaitSelfAddress env sc (n, w) = Return ((Some ch, None), n1, w1)"
    and "selfAddressReceivedChan n = Some a" and "chan_open w a"
  shows "last_identity_reply env (inbound sc) = Some (clientID n1)"
proof -
  from awaitSelfAddress_cases [OF assms(1)] obtain nd wd where
    d: "dispatch_all env (inbound sc) (n, w) = Return (nd, wd)"
    and c: "(\<exists>a. selfAddressReceivedChan nd = Some a \<and> chan_closed wd a)
        \<or> cancel_progress env (listener_acks sc) ErrCollectClientID (nd, wd)
            = Return ((Some ch, None), n1, w1)"
    by blast
  from c have "\<exists>a. selfAddressReceivedChan nd = Some a \<and> chan_closed wd a"
  proof
    assume "cancel_progress env (listener_acks sc) ErrCollectClientID (nd, wd)
            = Return ((Some ch, None), n1, w1)"
    from cancel_progress_result [OF this] show ?thesis by simp
  qed
  with dispatch_all_fields [OF d] assms(2) have cl: "chan_closed wd a" by simp
  have "last_identity_reply env (inbound sc) \<noteq> None"
  proof
    assume "last_identity_reply env (inbound sc) = None"
    with dispatch_all_clientID [OF d] have "chans wd = chans w" by simp
    with cl assms(3) show False by (simp add: chan_closed_def chan_open_def)
  qed
  with awaitSelfAddress_clientID [OF assms(1)] show ?thesis by auto
qed

lemma awaitSelfAddress_failure:
  assumes "awaitSelfAddress env sc (n, w) = Return ((r, Some e), n1, w1)"
    and "selfInstanceStoppedChan n = None"
  shows "connection n1 = connection n \<and> socketListener n1 = socketListener n"
proof -
  from awaitSelfAddress_cases [OF assms(1)] obtain nd wd where
    d: "dispatch_all env (inbound sc) (n, w) = Return (nd, wd)"
    and c: "cancel_progress env (listener_acks sc) ErrCollectClientID (nd, wd)
            = Return ((r, Some e), n1, w1)"
    by auto
  note f = dispatch_all_fields [OF d]
  with assms(2) have "selfInstanceStoppedChan nd = None" by simp
  with cancel_progress_result [OF c] have "n1 = nd" by simp
  with f show ?thesis by simp
qed


lemma requestSelfAddress_cases:
  assumes "requestSelfAddress env sc (n, w) = Return (r, n1, w1)"
  shows "\<exists>w2. chans w2 = chans w @ [False]
     \<and> (cancel_progress env (listener_acks sc) ErrSendRequest
            (n\<lparr>selfAddressReceivedChan := Some (length (chans w))\<rparr>, w2)
           = Return (r, n1, w1)
        \<or> awaitSelfAddress env sc
            (n\<lparr>selfAddressReceivedChan := Some (length (chans w))\<rparr>, w2)
           = Return (r, n1, w1))"
proof -
  obtain e w2 where s: "Send env NewSelfAddressRequest
      (n\<lparr>selfAddressReceivedChan := Some (length (chans w))\<rparr>, w\<lparr>chans := chans w @ [False]\<rparr>)
      = (e, n\<lparr>selfAddressReceivedChan := Some (length (chans w))\<rparr>, w2)"
    and c: "chans w2 = chans (w\<lparr>chans := chans w @ [False]\<rparr>)"
    using Send_frame [of env NewSelfAddressRequest
        "n\<lparr>selfAddressReceivedChan := Some (length (chans w))\<rparr>"
        "w\<lparr>chans := chans w @ [False]\<rparr>"]
    by blast
  from assms s have "cancel_progress env (listener_acks sc) ErrSendRequest
            (n\<lparr>selfAddressReceivedChan := Some (length (chans w))\<rparr>, w2)
           = Return (r, n1, w1)
        \<or> awaitSelfAddress env sc
            (n\<lparr>selfAddressReceivedChan := Some (length (chans w))\<rparr>, w2)
           = Return (r, n1, w1)"
    by (cases e) (simp_all add: requestSelfAddress_def make_chan_def)
  with c show ?thesis by auto
qed

lemma Start_cases:
  assumes "Start env sc (n, w) = Return (r, n1, w1)"
  shows "(connection n \<noteq> None \<and> r = (None, None) \<and> n1 = n)
     \<or> (connection n = None \<and> \<not> dial_ok sc \<and> r = (None, Some ErrDial)
          \<and> n1 = n\<lparr>connection := None\<rparr>)
     \<or> (connection n = None \<and> dial_ok sc
          \<and> (\<exists>l lc v. cancel_progress env (listener_acks sc) ErrListener
                 (n\<lparr>connection := Some (conns w), socketListener := l,
                    closedSocketListenerChan := lc\<rparr>, v) = Return (r, n1, w1)))
     \<or> (connection n = None \<and> dial_ok sc
          \<and> (\<exists>l lc v. requestSelfAddress env sc
                 (n\<lparr>connection := Some (conns w), socketListener := Some l,
                    closedSocketListenerChan := Some lc\<rparr>, v) = Return (r, n1, w1)))"
proof (cases "connection n = None")
  case False
  with assms show ?thesis by (auto simp: Start_def Let_def)
next
  case True
  note idle = this
  show ?thesis
  proof (cases "dial_ok sc")
    case False
    with assms idle show ?thesis by (auto simp: Start_def Let_def)
  next
    case True
    show ?thesis
    proof (cases "listener_result sc")
      case (ListenerOk l lc)
      with assms idle True have "requestSelfAddress env sc
          (n\<lparr>connection := Some (conns w), socketListener := Some l,
             closedSocketListenerChan := Some lc\<rparr>,
           emit (Listen l) (emit (NewListener (conns w) True)
             (emit (Dial (connectionURI n) True) (log LvDebug w\<lparr>conns := Suc (conns w)\<rparr>))))
          = Return (r, n1, w1)"
        by (simp add: Start_def Let_def log_def)
      with idle True show ?thesis by blast
    next
      case (ListenerErr l lc)
      with assms idle True have "cancel_progress env (listener_acks sc) ErrListener
          (n\<lparr>connection := Some (conns w), socketListener := l,
             closedSocketListenerChan := lc\<rparr>,
           emit (NewListener (conns w) False)
             (emit (Dial (connectionURI n) True) (log LvDebug w\<lparr>conns := Suc (conns w)\<rparr>)))
          = Return (r, n1, w1)"
        by (simp add: Start_def Let_def log_def)
      with idle True show ?thesis by blast
    qed
  qed
qed

lemma requestSelfAddress_clientID:
  assumes "requestSelfAddress env sc (n, w) = Return (r, n1, w1)"
  shows "clientID n1 = clientID n \<or> last_identity_reply env (inbound sc) = Some (clientID n1)"
proof -
  from requestSelfAddress_cases [OF assms] obtain w2 where
    "cancel_progress env (listener_acks sc) ErrSendRequest
            (n\<lparr>selfAddressReceivedChan := Some (length (chans w))\<rparr>, w2)
           = Return (r, n1, w1)
        \<or> awaitSelfAddress env sc
            (n\<lparr>selfAddressReceivedChan := Some (length (chans w))\<rparr>, w2)
           = Return (r, n1, w1)"
    by blast
  then show ?thesis
  proof
    assume "cancel_progress env (listener_acks sc) ErrSendRequest
            (n\<lparr>selfAddressReceivedChan := Some (length (chans w))\<rparr>, w2)
           = Return (r, n1, w1)"
    from cancel_progress_result [OF this] show ?thesis by simp
  next
    assume "awaitSelfAddress env sc
            (n\<lparr>selfAddressReceivedChan := Some (length (chans w))\<rparr>, w2)
           = Return (r, n1, w1)"
    from awaitSelfAddress_clientID [OF this] show ?thesis
      by (cases "last_identity_reply env (inbound sc)") simp_all
  qed
qed

lemma requestSelfAddress_success:
  assumes "requestSelfAddress env sc (n, w) = Return ((Some ch, None), n1, w1)"
  shows "last_identity_reply env (inbound sc) = Some (clientID n1)"
proof -
  from requestSelfAddress_cases [OF assms] obtain w2 where
    c: "chans w2 = chans w @ [False]" and
    "cancel_progress env (listener_acks sc) ErrSendRequest
            (n\<lparr>selfAddressReceivedChan := Some (length (chans w))\<rparr>, w2)
           = Return ((Some ch, None), n1, w1)
        \<or> awaitSelfAddress env sc
            (n\<lparr>selfAddressReceivedChan := Some (length (chans w))\<rparr>, w2)
           = Return ((Some ch, None), n1, w1)"
    by blast
  then show ?thesis
  proof (elim disjE)
    assume "cancel_progress env (listener_acks sc) ErrSendRequest
            (n\<lparr>selfAddressReceivedChan := Some (length (chans w))\<rparr>, w2)
           = Return ((Some ch, None), n1, w1)"
    from cancel_progress_result [OF this] show ?thesis by simp
  next
    assume a: "awaitSelfAddress env sc
            (n\<lparr>selfAddressReceivedChan := Some (length (chans w))\<rparr>, w2)
           = Return ((Some ch, None), n1, w1)"
    have o: "chan_open w2 (length (chans w))" using c by (simp add: chan_open_def)
    from awaitSelfAddress_success [OF a _ o] show ?thesis by simp
  qed
qed

lemma requestSelfAddress_failure:
  assumes "requestSelfAddress env sc (n, w) = Return ((r, Some e), n1, w1)"
    and "selfInstanceStoppedChan n = None"
  shows "connection n1 = connection n \<and> socketListener n1 = socketListener n"
proof -
  from requestSelfAddress_cases [OF assms(1)] obtain w2 where
    "cancel_progress env (listener_acks sc) ErrSendRequest
            (n\<lparr>selfAddressReceivedChan := Some (length (chans w))\<rparr>, w2)
           = Return ((r, Some e), n1, w1)
        \<or> awaitSelfAddress env sc
            (n\<lparr>selfAddressReceivedChan := Some (length (chans w))\<rparr>, w2)
           = Return ((r, Some e), n1, w1)"
    by blast
  then show ?thesis
  proof
    assume "cancel_progress env (listener_acks sc) ErrSendRequest
            (n\<lparr>selfAddressReceivedChan := Some (length (chans w))\<rparr>, w2)
           = Return ((r, Some e), n1, w1)"
    from cancel_progress_result [OF this] assms(2) show ?thesis by simp
  next
    assume "awaitSelfAddress env sc
            (n\<lparr>selfAddressReceivedChan := Some (length (chans w))\<rparr>, w2)
           = Return ((r, Some e), n1, w1)"
    from awaitSelfAddress_failure [OF this] assms(2) show ?thesis by simp
  qed
qed

lemma Start_clientID:
  assumes "Start env sc (n, w) = Return (r, n1, w1)"
  shows "clientID n1 = clientID n \<or> last_identity_reply env (inbound sc) = Some (clientID n1)"
  using Start_cases [OF assms]
proof (elim disjE conjE exE)
  fix l lc v
  assume "cancel_progress env (listener_acks sc) ErrListener
      (n\<lparr>connection := Some (conns w), socketListener := l,
         closedSocketListenerChan := lc\<rparr>, v) = Return (r, n1, w1)"
  from cancel_progress_result [OF this] show ?thesis by simp
next
  fix l lc v
  assume "requestSelfAddress env sc
      (n\<lparr>connection := Some (conns w), socketListener := Some l,
         closedSocketListenerChan := Some lc\<rparr>, v) = Return (r, n1, w1)"
  from requestSelfAddress_clientID [OF this] show ?thesis by simp
qed simp_all

lemma Start_success_identity:
  assumes "Start env sc (n, w) = Return ((Some ch, None), n1, w1)"
  shows "last_identity_reply env (inbound sc) = Some (clientID n1)"
  using Start_cases [OF assms]
proof (elim disjE conjE exE)
  fix l lc v
  assume "cancel_progress env (listener_acks sc) ErrListener
      (n\<lparr>connection := Some (conns w), socketListener := l,
         closedSocketListenerChan := lc\<rparr>, v) = Return ((Some ch, None), n1, w1)"
  from cancel_progress_result [OF this] show ?thesis by simp
next
  fix l lc v
  assume "requestSelfAddress env sc
      (n\<lparr>connection := Some (conns w), socketListener := Some l,
         closedSocketListenerChan := Some lc\<rparr>, v) = Return ((Some ch, None), n1, w1)"
  from requestSelfAddress_success [OF this] show ?thesis .
qed simp_all

lemma Start_failure_running:
  assumes "Start env sc (n, w) = Return ((r, Some e), n1, w1)"
    and "connection n = None" and "selfInstanceStoppedChan n = None" and "dial_ok sc"
  shows "connection n1 = Some (conns w)"
  using Start_cases [OF assms(1)]
proof (elim disjE conjE exE)
  fix l lc v
  assume "cancel_progress env (listener_acks sc) ErrListener
      (n\<lparr>connection := Some (conns w), socketListener := l,
         closedSocketListenerChan := lc\<rparr>, v) = Return ((r, Some e), n1, w1)"
  from cancel_progress_result [OF this] assms(3) show ?thesis by simp
next
  fix l lc v
  assume "requestSelfAddress env sc
      (n\<lparr>connection := Some (conns w), socketListener := Some l,
         closedSocketListenerChan := Some lc\<rparr>, v) = Return ((r, Some e), n1, w1)"
  from requestSelfAddress_failure [OF this] assms(3) show ?thesis by simp
qed (use assms in simp_all)

lemma awaitSelfAddress_ready:
  assumes "awaitSelfAddress env sc (n, w) = Return ((Some ch, None), n1, w1)"
  shows "connection n1 = connection n \<and> socketListener n1 = socketListener n
     \<and> closedSocketListenerChan n1 = closedSocketListenerChan n
     \<and> selfInstanceStoppedChan n1 = Some ch \<and> chan_open w1 ch"
proof -
  from awaitSelfAddress_cases [OF assms] obtain nd wd where
    d: "dispatch_all env (inbound sc) (n, w) = Return (nd, wd)"
    and c: "((Some ch, None) = (Some (length (chans wd)), None)
            \<and> n1 = nd\<lparr>selfAddressReceivedChan := None,
                       selfInstanceStoppedChan := Some (length (chans wd))\<rparr>
            \<and> chan_open w1 (length (chans wd)))
        \<or> cancel_progress env (listener_acks sc) ErrCollectClientID (nd, wd)
            = Return ((Some ch, None), n1, w1)"
    by blast
  from c have "ch = length (chans wd)
      \<and> n1 = nd\<lparr>selfAddressReceivedChan := None,
                 selfInstanceStoppedChan := Some (length (chans wd))\<rparr>
      \<and> chan_open w1 (length (chans wd))"
  proof
    assume "cancel_progress env (listener_acks sc) ErrCollectClientID (nd, wd)
            = Return ((Some ch, None), n1, w1)"
    from cancel_progress_result [OF this] show ?thesis by simp
  qed simp
  with dispatch_all_fields [OF d] show ?thesis by simp
qed

lemma requestSelfAddress_ready:
  assumes "requestSelfAddress env sc (n, w) = Return ((Some ch, None), n1, w1)"
  shows "connection n1 = connection n \<and> socketListener n1 = socketListener n
     \<and> closedSocketListenerChan n1 = closedSocketListenerChan n
     \<and> selfInstanceStoppedChan n1 = Some ch \<and> chan_open w1 ch"
proof -
  from requestSelfAddress_cases [OF assms] obtain w2 where
    "cancel_progress env (listener_acks sc) ErrSendRequest
            (n\<lparr>selfAddressReceivedChan := Some (length (chans w))\<rparr>, w2)
           = Return ((Some ch, None), n1, w1)
        \<or> awaitSelfAddress env sc
            (n\<lparr>selfAddressReceivedChan := Some (length (chans w))\<rparr>, w2)
           = Return ((Some ch, None), n1, w1)"
    by blast
  then show ?thesis
  proof
    assume "cancel_progress env (listener_acks sc) ErrSendRequest
            (n\<lparr>selfAddressReceivedChan := Some (length (chans w))\<rparr>, w2)
           = Return ((Some ch, None), n1, w1)"
    from cancel_progress_result [OF this] show ?thesis by simp
  next
    assume "awaitSelfAddress env sc
            (n\<lparr>selfAddressReceivedChan := Some (length (chans w))\<rparr>, w2)
           = Return ((Some ch, None), n1, w1)"
    from awaitSelfAddress_ready [OF this] show ?thesis by simp
  qed
qed

text \<open>
  A \<^verbatim>\<open>Start\<close> that returns a channel leaves a running manager: the dialled transport,
  the receive loop and its closed signal attached, and the returned channel stored and
  open.
\<close>

lemma Start_success_ready:
  assumes "Start env sc (n, w) = Return ((Some ch, None), n1, w1)"
  shows "connection n1 = Some (conns w) \<and> socketListener n1 \<noteq> None
     \<and> closedSocketListenerChan n1 \<noteq> None
     \<and> selfInstanceStoppedChan n1 = Some ch \<and> chan_open w1 ch"
  using Start_cases [OF assms]
proof (elim disjE conjE exE)
  fix l lc v
  assume "cancel_progress env (listener_acks sc) ErrListener
      (n\<lparr>connection := Some (conns w), socketListener := l,
         closedSocketListenerChan := lc\<rparr>, v) = Return ((Some ch, None), n1, w1)"
  from cancel_progress_result [OF this] show ?thesis by simp
next
  fix l lc v
  assume "requestSelfAddress env sc
      (n\<lparr>connection := Some (conns w), socketListener := Some l,
         closedSocketListenerChan := Some lc\<rparr>, v) = Return ((Some ch, None), n1, w1)"
  from requestSelfAddress_ready [OF this] show ?thesis by simp
qed simp_all

lemma demo_dispatch_later:
  "dispatch_all demo_env [''Rhello'', ''Ibob'', ''Eboom''] (ready_manager, ready_world)
     = Return (ready_manager\<lparr>clientID := ''bob''\<rparr>,
               ready_world\<lparr>writes := 2,
                 trace := trace ready_world @
                   [Log LvDebug, Handler ''hello'', WriteMessage 0 TextMessage ''Shello'' True,
                    Log LvDebug, Log LvError]\<rparr>)"
  by (simp add: messageDispatcher_def call_messageHandler_def Send_def write_message_def
      log_def emit_def Let_def demo_env_def demo_unmarshalMap_def ready_manager_def
      ready_world_def)

lemma demo_dispatch_bob:
  "messageDispatcher demo_env (ready_manager, ready_world) ''Ibob''
     = Return (ready_manager\<lparr>clientID := ''bob''\<rparr>,
               ready_world\<lparr>trace := trace ready_world @ [Log LvDebug]\<rparr>)"
  by (simp add: messageDispatcher_def log_def Let_def demo_env_def demo_unmarshalMap_def
      ready_manager_def)

lemma demo_Send_ready:
  "Send demo_env (AppMessage ''x'') (ready_manager, ready_world)
     = (None, ready_manager,
        ready_world\<lparr>writes := 2,
          trace := trace ready_world @ [WriteMessage 0 TextMessage ''Sx'' True]\<rparr>)"
  by (simp add: Send_def write_message_def emit_def Let_def demo_env_def ready_manager_def
      ready_world_def)

lemma demo_New:
  "NewNymSocketManager ''ws://peer'' True True = Inr new_manager"
  by (simp add: NewNymSocketManager_def new_manager_def)

section \<open>Start on a running manager\<close>

text \<open>
  C4. Whenever a transport is already open (the connection is not nil), \<^verbatim>\<open>Start\<close>
  returns at once with a nil channel and no error: the manager is unchanged, no
  connection is dialled, no channel is made or closed, nothing is written, and the
  trace gains two log lines only.
\<close>

theorem Start_already_running:
  "connection n \<noteq> None \<Longrightarrow>
   Start env sc (n, w) = Return ((None, None), n, w\<lparr>trace := trace w @ [Log LvDebug, Log LvWarn]\<rparr>)"
  by (simp add: Start_def log_def)

theorem Start_already_running_witness:
  "connection ready_manager \<noteq> None \<and>
   Start demo_env (demo_script [''Ibob'']) (ready_manager, ready_world)
     = Return ((None, None), ready_manager,
               ready_world\<lparr>trace := trace ready_world @ [Log LvDebug, Log LvWarn]\<rparr>)"
  using Start_already_running [of ready_manager demo_env "demo_script [''Ibob'']" ready_world]
  by (simp add: ready_manager_def)

section \<open>Send before Start\<close>

text \<open>
  C8. For every message, \<^verbatim>\<open>Send\<close> on a manager without a transport (the connection is
  nil) returns the "not started" error, writes nothing (the trace gains one warning and
  no write, the write count stays), and leaves the manager unchanged.
\<close>

theorem Send_not_started:
  "connection n = None \<Longrightarrow>
   Send env msg (n, w) = (Some ErrNotStarted, n, w\<lparr>trace := trace w @ [Log LvWarn]\<rparr>)"
  by (simp add: Send_def log_def)

theorem Send_not_started_witness:
  "connection new_manager = None \<and>
   Send demo_env (AppMessage ''hello'') (new_manager, new_world)
     = (Some ErrNotStarted, new_manager, new_world\<lparr>trace := trace new_world @ [Log LvWarn]\<rparr>)"
  using Send_not_started [of new_manager demo_env "AppMessage ''hello''" new_world]
  by (simp add: new_manager_def)

section \<open>Stop without a transport\<close>

text \<open>
  C5. \<^verbatim>\<open>Stop\<close> is idempotent. In every state without a transport (the connection is
  nil) \<^verbatim>\<open>Stop\<close> returns at once: the manager, the channels and the counters are
  unchanged and the trace gains its one debug line, and so does every sequence of
  \<^verbatim>\<open>Stop\<close> calls from there. In any state, once one \<^verbatim>\<open>Stop\<close> has returned, every further
  sequence of \<^verbatim>\<open>Stop\<close> calls returns the same manager and adds debug lines only: no
  close frame, no closing of the transport or of a channel. Only the first call of a
  sequence can tear down.
\<close>

theorem Stop_idempotent:
  "(connection n = None \<longrightarrow>
      Stop env ack (n, w) = Return (n, w\<lparr>trace := trace w @ [Log LvDebug]\<rparr>)
      \<and> stop_all env acks (n, w)
          = Return (n, w\<lparr>trace := trace w @ replicate (length acks) (Log LvDebug)\<rparr>))
   \<and> (Stop env ack (n, w) = Return (n1, w1) \<longrightarrow>
        (\<exists>k. stop_all env acks (n1, w1)
           = Return (n1, w1\<lparr>trace := trace w1 @ replicate k (Log LvDebug)\<rparr>)))"
proof (intro conjI impI)
  assume c: "connection n = None"
  then show "Stop env ack (n, w) = Return (n, w\<lparr>trace := trace w @ [Log LvDebug]\<rparr>)"
    by (simp add: Stop_def log_def)
  from c show "stop_all env acks (n, w)
      = Return (n, w\<lparr>trace := trace w @ replicate (length acks) (Log LvDebug)\<rparr>)"
  proof (induction acks arbitrary: w)
    case Nil
    show ?case by simp
  next
    case (Cons a acks)
    from Cons.prems have "Stop env a (n, w) = Return (n, w\<lparr>trace := trace w @ [Log LvDebug]\<rparr>)"
      by (simp add: Stop_def log_def)
    with Cons.IH [OF Cons.prems, of "w\<lparr>trace := trace w @ [Log LvDebug]\<rparr>"]
    show ?case by (simp add: replicate_append_same)
  qed
next
  assume "Stop env ack (n, w) = Return (n1, w1)"
  then show "\<exists>k. stop_all env acks (n1, w1)
       = Return (n1, w1\<lparr>trace := trace w1 @ replicate k (Log LvDebug)\<rparr>)"
    by (rule stop_all_after_Stop)
qed

theorem Stop_idempotent_witness:
  "connection new_manager = None
   \<and> Stop demo_env True (new_manager, new_world)
       = Return (new_manager, new_world\<lparr>trace := trace new_world @ [Log LvDebug]\<rparr>)
   \<and> stop_all demo_env [True, False, True] (new_manager, new_world)
       = Return (new_manager, new_world\<lparr>trace := trace new_world @ [Log LvDebug, Log LvDebug, Log LvDebug]\<rparr>)
   \<and> Stop demo_env True (ready_manager, ready_world) = Return (stopped_manager, stopped_world)
   \<and> (\<exists>k. stop_all demo_env [False, True] (stopped_manager, stopped_world)
          = Return (stopped_manager,
                    stopped_world\<lparr>trace := trace stopped_world @ replicate k (Log LvDebug)\<rparr>))"
proof -
  have c: "connection new_manager = None" by (simp add: new_manager_def)
  note a = Stop_idempotent [of new_manager demo_env True new_world "[True, False, True]"
      new_manager new_world]
  note b = Stop_idempotent [of ready_manager demo_env True ready_world "[False, True]"
      stopped_manager stopped_world]
  from a c have 1: "Stop demo_env True (new_manager, new_world)
       = Return (new_manager, new_world\<lparr>trace := trace new_world @ [Log LvDebug]\<rparr>)
   \<and> stop_all demo_env [True, False, True] (new_manager, new_world)
       = Return (new_manager, new_world\<lparr>trace := trace new_world @ [Log LvDebug, Log LvDebug, Log LvDebug]\<rparr>)"
    by (simp del: stop_all.simps)
  from b demo_Stop_ready have 2: "\<exists>k. stop_all demo_env [False, True] (stopped_manager, stopped_world)
          = Return (stopped_manager,
                    stopped_world\<lparr>trace := trace stopped_world @ replicate k (Log LvDebug)\<rparr>)"
    by blast
  from c 1 2 demo_Stop_ready show ?thesis by blast
qed

section \<open>Teardown keeps the identity\<close>

text \<open>
  C10. Teardown never clears the stored client identity: whenever \<^verbatim>\<open>selfDestruct\<close> or
  \<^verbatim>\<open>Stop\<close> returns, \<^verbatim>\<open>GetNymClientId\<close> gives the value it gave before. \<^verbatim>\<open>Stop\<close> does
  return whenever the stopped-notification channel, if set, is still open; when it was
  set, \<^verbatim>\<open>IsRunning\<close> is false afterwards while the identity of the ended session is
  still returned.
\<close>

theorem teardown_keeps_clientID:
  "(selfDestruct env ack (n, w) = Return (n1, w1) \<longrightarrow> GetNymClientId n1 = GetNymClientId n)
   \<and> (Stop env ack (n, w) = Return (n2, w2) \<longrightarrow> GetNymClientId n2 = GetNymClientId n)
   \<and> ((\<forall>s. selfInstanceStoppedChan n = Some s \<longrightarrow> chan_open w s) \<longrightarrow>
        (\<exists>n' w'. Stop env ack (n, w) = Return (n', w')
           \<and> GetNymClientId n' = GetNymClientId n
           \<and> (selfInstanceStoppedChan n \<noteq> None \<longrightarrow> \<not> IsRunning n')))"
proof (intro conjI impI)
  assume "selfDestruct env ack (n, w) = Return (n1, w1)"
  then show "GetNymClientId n1 = GetNymClientId n"
    by (simp add: GetNymClientId_def selfDestruct_keeps_clientID)
next
  assume "Stop env ack (n, w) = Return (n2, w2)"
  then show "GetNymClientId n2 = GetNymClientId n"
    by (simp add: GetNymClientId_def Stop_keeps_clientID)
next
  assume "\<forall>s. selfInstanceStoppedChan n = Some s \<longrightarrow> chan_open w s"
  from Stop_returns [OF this, of env ack] obtain n' w' where
    r: "Stop env ack (n, w) = Return (n', w')"
    and c: "selfInstanceStoppedChan n \<noteq> None \<longrightarrow> connection n' = None"
    by blast
  from r have "GetNymClientId n' = GetNymClientId n"
    by (simp add: GetNymClientId_def Stop_keeps_clientID)
  with r c show "\<exists>n' w'. Stop env ack (n, w) = Return (n', w')
           \<and> GetNymClientId n' = GetNymClientId n
           \<and> (selfInstanceStoppedChan n \<noteq> None \<longrightarrow> \<not> IsRunning n')"
    by (auto simp: IsRunning_def)
qed

theorem teardown_keeps_clientID_witness:
  "selfDestruct demo_env True (ready_manager, ready_world \<lparr>trace := trace ready_world @ [Log LvDebug]\<rparr>)
     = Return (stopped_manager, stopped_world\<lparr>trace := butlast (trace stopped_world)\<rparr>)
   \<and> Stop demo_env True (ready_manager, ready_world) = Return (stopped_manager, stopped_world)
   \<and> GetNymClientId stopped_manager = ''alice''
   \<and> GetNymClientId ready_manager = ''alice''
   \<and> selfInstanceStoppedChan ready_manager = Some 1
   \<and> chan_open ready_world 1
   \<and> \<not> IsRunning stopped_manager"
proof -
  note d = demo_selfDestruct_ready
  have s: "selfInstanceStoppedChan ready_manager = Some 1" by (simp add: ready_manager_def)
  have c: "chan_open ready_world 1" by (simp add: ready_world_def chan_open_def)
  from s c have o: "\<forall>s. selfInstanceStoppedChan ready_manager = Some s \<longrightarrow> chan_open ready_world s"
    by simp
  have g: "GetNymClientId ready_manager = ''alice''"
    by (simp add: GetNymClientId_def ready_manager_def)
  note t = teardown_keeps_clientID [of demo_env True ready_manager
      "ready_world \<lparr>trace := trace ready_world @ [Log LvDebug]\<rparr>" stopped_manager
      "stopped_world\<lparr>trace := butlast (trace stopped_world)\<rparr>"]
  note u = teardown_keeps_clientID [of demo_env True ready_manager ready_world _ _
      stopped_manager stopped_world]
  from t d g have 1: "GetNymClientId stopped_manager = ''alice''" by simp
  from u o s demo_Stop_ready have 2: "\<not> IsRunning stopped_manager" by auto
  from d demo_Stop_ready 1 2 g s c show ?thesis by blast
qed

section \<open>Teardown of a manager that Start has made ready\<close>

text \<open>
  When the transport is open, the receive loop and its closed signal are attached and
  the stopped-notification channel is set and open (the state a \<^verbatim>\<open>Start\<close> that returned
  the channel leaves, see \<open>Start_success_ready\<close>), \<^verbatim>\<open>selfDestruct\<close>, and \<^verbatim>\<open>Stop\<close>
  through it, returns whatever the peer does: whether or not the close frame could be
  written and whether the receive loop confirmed (\<open>ack\<close>) or the deadline elapsed. Apart
  from log lines it does exactly this, in this order: write the close frame, wait for
  the receive loop's closed signal or the deadline, close the transport, close the
  stopped-notification channel. Each happens once, and the three handles are nil
  afterwards.
\<close>

lemma ready_teardown_order:
  assumes "connection n = Some c" "socketListener n = Some l"
    "closedSocketListenerChan n = Some lc" "selfInstanceStoppedChan n = Some s"
    "chan_open w s"
  shows "\<exists>w' w''.
     selfDestruct env ack (n, w)
       = Return (n\<lparr>socketListener := None, connection := None,
                   selfInstanceStoppedChan := None\<rparr>, w')
     \<and> Stop env ack (n, w)
       = Return (n\<lparr>socketListener := None, connection := None,
                   selfInstanceStoppedChan := None\<rparr>, w'')
     \<and> take (length (trace w)) (trace w') = trace w
     \<and> effects (drop (length (trace w)) (trace w'))
         = [WriteMessage c CloseMessage closeNormalClosure (\<not> writeFails env (writes w)),
            AwaitListenerClosed ack, ConnClose c (\<not> closeFails env c), CloseChan s]
     \<and> take (length (trace w)) (trace w'') = trace w
     \<and> effects (drop (length (trace w)) (trace w''))
         = [WriteMessage c CloseMessage closeNormalClosure (\<not> writeFails env (writes w)),
            AwaitListenerClosed ack, ConnClose c (\<not> closeFails env c), CloseChan s]
     \<and> chan_closed w' s \<and> chan_closed w'' s"
proof -
  have o: "chan_open (log LvDebug w) s"
    using assms(5) by (simp add: chan_open_def log_def)
  have s: "s < length (chans w)" using assms(5) by (simp add: chan_open_def)
  note d1 = selfDestruct_ready [OF assms, of env ack]
  note d2 = selfDestruct_ready [OF assms(1-4) o, of env ack]
  have st: "Stop env ack (n, w) = (case selfDestruct env ack (n, log LvDebug w) of
      Panic \<Rightarrow> Panic | Return (n', w') \<Rightarrow> Return (n', log LvDebug w'))"
    using assms(1) by (simp add: Stop_def Let_def)
  show ?thesis
    unfolding st d1 d2
    using s by (simp add: effects_def chan_closed_def log_def)
qed

lemma ready_teardown_order_example:
  "connection ready_manager = Some 0 \<and> socketListener ready_manager = Some 0
   \<and> closedSocketListenerChan ready_manager = Some 0
   \<and> selfInstanceStoppedChan ready_manager = Some 1 \<and> chan_open ready_world 1
   \<and> (\<exists>w' w''.
        selfDestruct demo_env False (ready_manager, ready_world)
          = Return (ready_manager\<lparr>socketListener := None, connection := None,
                                  selfInstanceStoppedChan := None\<rparr>, w')
        \<and> Stop demo_env False (ready_manager, ready_world)
          = Return (ready_manager\<lparr>socketListener := None, connection := None,
                                  selfInstanceStoppedChan := None\<rparr>, w'')
        \<and> effects (drop (length (trace ready_world)) (trace w'))
            = [WriteMessage 0 CloseMessage closeNormalClosure True,
               AwaitListenerClosed False, ConnClose 0 True, CloseChan 1]
        \<and> effects (drop (length (trace ready_world)) (trace w''))
            = [WriteMessage 0 CloseMessage closeNormalClosure True,
               AwaitListenerClosed False, ConnClose 0 True, CloseChan 1]
        \<and> chan_closed w' 1 \<and> chan_closed w'' 1)"
proof -
  have h1: "connection ready_manager = Some 0" by (simp add: ready_manager_def)
  have h2: "socketListener ready_manager = Some 0" by (simp add: ready_manager_def)
  have h3: "closedSocketListenerChan ready_manager = Some 0" by (simp add: ready_manager_def)
  have h4: "selfInstanceStoppedChan ready_manager = Some 1" by (simp add: ready_manager_def)
  have h5: "chan_open ready_world 1" by (simp add: ready_world_def chan_open_def)
  have e: "writeFails demo_env (writes ready_world) = False" "closeFails demo_env 0 = False"
    by (simp_all add: demo_env_def)
  from ready_teardown_order [OF h1 h2 h3 h4 h5, of demo_env False] e
  have "\<exists>w' w''.
        selfDestruct demo_env False (ready_manager, ready_world)
          = Return (ready_manager\<lparr>socketListener := None, connection := None,
                                  selfInstanceStoppedChan := None\<rparr>, w')
        \<and> Stop demo_env False (ready_manager, ready_world)
          = Return (ready_manager\<lparr>socketListener := None, connection := None,
                                  selfInstanceStoppedChan := None\<rparr>, w'')
        \<and> effects (drop (length (trace ready_world)) (trace w'))
            = [WriteMessage 0 CloseMessage closeNormalClosure True,
               AwaitListenerClosed False, ConnClose 0 True, CloseChan 1]
        \<and> effects (drop (length (trace ready_world)) (trace w''))
            = [WriteMessage 0 CloseMessage closeNormalClosure True,
               AwaitListenerClosed False, ConnClose 0 True, CloseChan 1]
        \<and> chan_closed w' 1 \<and> chan_closed w'' 1"
    by auto
  with h1 h2 h3 h4 h5 show ?thesis by blast
qed

section \<open>Frames that are logged and dropped\<close>

text \<open>
  C9. A frame that does not parse, has no \<open>type\<close>, has an unrecognized discriminator,
  or is an error reply (the error discriminator being different from the identity-reply
  one, which the \<^verbatim>\<open>switch\<close> tests first) is logged and dropped: the dispatcher returns
  the manager unchanged (connection, identity, listener and all channels; so
  \<^verbatim>\<open>IsRunning\<close> is what it was), closes no channel, writes nothing, does not call the
  message handler, and adds one log line, a warning or an error, to the trace.
\<close>

theorem dispatcher_drops:
  assumes "unparseable env s \<or> lacks_type env s \<or> unrecognized_type env s
     \<or> (error_reply env s \<and> NymErrorType env \<noteq> NymSelfAddressReplyType env)"
  shows "\<exists>lv. (lv = LvWarn \<or> lv = LvError)
     \<and> messageDispatcher env (n, w) s = Return (n, w\<lparr>trace := trace w @ [Log lv]\<rparr>)"
proof -
  from assms consider "unparseable env s" | "lacks_type env s" | "unrecognized_type env s"
    | "error_reply env s" "NymErrorType env \<noteq> NymSelfAddressReplyType env"
    by blast
  then show ?thesis
  proof cases
    case 1
    then show ?thesis using dispatch_unparseable by blast
  next
    case 2
    then show ?thesis using dispatch_lacks_type by blast
  next
    case 3
    then show ?thesis using dispatch_unrecognized_type by blast
  next
    case 4
    from dispatch_error_reply [OF 4, of n w] show ?thesis
      by (cases "unmarshalError env s = None") auto
  qed
qed

theorem dispatcher_drops_witness:
  "unparseable demo_env ''%'' \<and> lacks_type demo_env ''N'' \<and> unrecognized_type demo_env ''U''
   \<and> error_reply demo_env ''Eboom''
   \<and> NymErrorType demo_env \<noteq> NymSelfAddressReplyType demo_env
   \<and> messageDispatcher demo_env (ready_manager, ready_world) ''%''
       = Return (ready_manager, ready_world\<lparr>trace := trace ready_world @ [Log LvWarn]\<rparr>)
   \<and> messageDispatcher demo_env (ready_manager, ready_world) ''N''
       = Return (ready_manager, ready_world\<lparr>trace := trace ready_world @ [Log LvWarn]\<rparr>)
   \<and> messageDispatcher demo_env (ready_manager, ready_world) ''U''
       = Return (ready_manager, ready_world\<lparr>trace := trace ready_world @ [Log LvWarn]\<rparr>)
   \<and> messageDispatcher demo_env (ready_manager, ready_world) ''Eboom''
       = Return (ready_manager, ready_world\<lparr>trace := trace ready_world @ [Log LvError]\<rparr>)
   \<and> IsRunning ready_manager"
proof -
  have a: "unparseable demo_env ''%''"
    by (simp add: unparseable_def demo_env_def demo_unmarshalMap_def)
  have b: "lacks_type demo_env ''N''"
    by (simp add: lacks_type_def frame_type_def demo_env_def demo_unmarshalMap_def)
  have c: "unrecognized_type demo_env ''U''"
    by (simp add: unrecognized_type_def frame_type_def demo_env_def demo_unmarshalMap_def)
  have d: "error_reply demo_env ''Eboom''"
    by (simp add: error_reply_def frame_type_def demo_env_def demo_unmarshalMap_def)
  have e: "NymErrorType demo_env \<noteq> NymSelfAddressReplyType demo_env"
    by (simp add: demo_env_def)
  have u: "unmarshalError demo_env ''Eboom'' \<noteq> None" by (simp add: demo_env_def)
  have r: "IsRunning ready_manager" by (simp add: IsRunning_def ready_manager_def)
  have w: "\<And>lv. ready_world\<lparr>trace := trace ready_world @ [Log lv]\<rparr> \<noteq> ready_world"
    by (simp add: ready_world_def)
  from dispatcher_drops [of demo_env "''%''" ready_manager ready_world] a
  obtain l1 where 1: "messageDispatcher demo_env (ready_manager, ready_world) ''%''
      = Return (ready_manager, ready_world\<lparr>trace := trace ready_world @ [Log l1]\<rparr>)"
    by blast
  from dispatcher_drops [of demo_env "''N''" ready_manager ready_world] b
  obtain l2 where 2: "messageDispatcher demo_env (ready_manager, ready_world) ''N''
      = Return (ready_manager, ready_world\<lparr>trace := trace ready_world @ [Log l2]\<rparr>)"
    by blast
  from dispatcher_drops [of demo_env "''U''" ready_manager ready_world] c
  obtain l3 where 3: "messageDispatcher demo_env (ready_manager, ready_world) ''U''
      = Return (ready_manager, ready_world\<lparr>trace := trace ready_world @ [Log l3]\<rparr>)"
    by blast
  from dispatcher_drops [of demo_env "''Eboom''" ready_manager ready_world] d e
  obtain l4 where 4: "messageDispatcher demo_env (ready_manager, ready_world) ''Eboom''
      = Return (ready_manager, ready_world\<lparr>trace := trace ready_world @ [Log l4]\<rparr>)"
    by blast
  have "l1 = LvWarn" using 1 dispatch_unparseable [OF a, of ready_manager ready_world]
    by (simp add: ready_world_def)
  moreover have "l2 = LvWarn" using 2 dispatch_lacks_type [OF b, of ready_manager ready_world]
    by (simp add: ready_world_def)
  moreover have "l3 = LvWarn" using 3 dispatch_unrecognized_type [OF c, of ready_manager ready_world]
    by (simp add: ready_world_def)
  moreover have "l4 = LvError" using 4 u dispatch_error_reply [OF d e, of ready_manager ready_world]
    by (simp add: ready_world_def)
  ultimately show ?thesis using a b c d e r 1 2 3 4 by simp
qed

section \<open>The identity after Start\<close>

text \<open>
  C7. After a successful \<^verbatim>\<open>Start\<close> (one that returns the stopped-notification channel
  and no error), and after whatever frames the receive loop dispatches later,
  \<^verbatim>\<open>GetNymClientId\<close> returns the address carried by the most recently received
  identity-reply frame, among the frames received during \<^verbatim>\<open>Start\<close> and since; there is
  such a frame.
\<close>

theorem identity_after_Start:
  assumes "Start env sc (n, w) = Return ((Some ch, None), n1, w1)"
    and "dispatch_all env later (n1, w1) = Return (n2, w2)"
  shows "last_identity_reply env (inbound sc @ later) = Some (GetNymClientId n2)"
proof -
  from Start_success_identity [OF assms(1)]
  have s: "last_identity_reply env (inbound sc) = Some (clientID n1)" .
  from dispatch_all_clientID [OF assms(2)]
  have "clientID n2 = (case last_identity_reply env later of None \<Rightarrow> clientID n1 | Some a \<Rightarrow> a)"
    by simp
  with s show ?thesis
    by (simp add: last_identity_reply_append GetNymClientId_def split: option.splits)
qed

theorem identity_after_Start_witness:
  "Start demo_env (demo_script [''Ialice'']) (new_manager, new_world)
     = Return ((Some 1, None), ready_manager, ready_world)
   \<and> dispatch_all demo_env [''Rhello'', ''Ibob'', ''Eboom''] (ready_manager, ready_world)
     = Return (ready_manager\<lparr>clientID := ''bob''\<rparr>,
               ready_world\<lparr>writes := 2,
                 trace := trace ready_world @
                   [Log LvDebug, Handler ''hello'', WriteMessage 0 TextMessage ''Shello'' True,
                    Log LvDebug, Log LvError]\<rparr>)
   \<and> last_identity_reply demo_env (inbound (demo_script [''Ialice'']) @ [''Rhello'', ''Ibob'', ''Eboom''])
     = Some (GetNymClientId (ready_manager\<lparr>clientID := ''bob''\<rparr>))
   \<and> GetNymClientId (ready_manager\<lparr>clientID := ''bob''\<rparr>) = ''bob''"
proof -
  note t = identity_after_Start [OF demo_Start_ready demo_dispatch_later]
  have "GetNymClientId (ready_manager\<lparr>clientID := ''bob''\<rparr>) = ''bob''"
    by (simp add: GetNymClientId_def)
  with t demo_Start_ready demo_dispatch_later show ?thesis by blast
qed

section \<open>Who writes the identity\<close>

text \<open>
  C3, as the claim states it, fails: the identity is not write-once per session. On the
  manager that \<^verbatim>\<open>Start\<close> has made ready with the identity \<open>alice\<close>, a further
  identity-reply frame carrying \<open>bob\<close> is dispatched without a panic and
  \<^verbatim>\<open>GetNymClientId\<close> returns \<open>bob\<close> afterwards.
\<close>

theorem identity_overwritten_counterexample:
  "Start demo_env (demo_script [''Ialice'']) (new_manager, new_world)
     = Return ((Some 1, None), ready_manager, ready_world)
   \<and> GetNymClientId ready_manager = ''alice''
   \<and> messageDispatcher demo_env (ready_manager, ready_world) ''Ibob''
     = Return (ready_manager\<lparr>clientID := ''bob''\<rparr>,
               ready_world\<lparr>trace := trace ready_world @ [Log LvDebug]\<rparr>)
   \<and> GetNymClientId (ready_manager\<lparr>clientID := ''bob''\<rparr>) = ''bob''
   \<and> GetNymClientId (ready_manager\<lparr>clientID := ''bob''\<rparr>) \<noteq> GetNymClientId ready_manager"
  using demo_Start_ready demo_dispatch_bob
  by (simp add: GetNymClientId_def ready_manager_def)

text \<open>
  C3, amended. The dispatcher overwrites the client identity with the address of every
  identity-reply frame that decodes, whenever it arrives (also mid-session, after
  \<^verbatim>\<open>Start\<close> has returned), and with nothing else: the dispatch of any other frame,
  \<^verbatim>\<open>Stop\<close>, \<^verbatim>\<open>selfDestruct\<close> and \<^verbatim>\<open>Send\<close> leave it unchanged, and \<^verbatim>\<open>Start\<close> either leaves it unchanged
  or leaves the address of the last identity reply dispatched while it waited.
  \<^verbatim>\<open>GetNymClientId\<close> reads it in any state and returns the empty string on a manager
  fresh from \<^verbatim>\<open>NewNymSocketManager\<close>.
\<close>

theorem clientID_written_by_identity_reply:
  "(messageDispatcher env (n, w) s = Return (n1, w1) \<longrightarrow>
      GetNymClientId n1
        = (case identity_reply_address env s of None \<Rightarrow> GetNymClientId n | Some a \<Rightarrow> a))
   \<and> (Stop env ack (n, w) = Return (n2, w2) \<longrightarrow> GetNymClientId n2 = GetNymClientId n)
   \<and> (selfDestruct env ack (n, w) = Return (n6, w6) \<longrightarrow>
        GetNymClientId n6 = GetNymClientId n)
   \<and> (Send env msg (n, w) = (e, n3, w3) \<longrightarrow> GetNymClientId n3 = GetNymClientId n)
   \<and> (Start env sc (n, w) = Return (r, n4, w4) \<longrightarrow>
        GetNymClientId n4 = GetNymClientId n
        \<or> last_identity_reply env (inbound sc) = Some (GetNymClientId n4))
   \<and> (NewNymSocketManager uri h l = Inr n5 \<longrightarrow> GetNymClientId n5 = [])"
proof (intro conjI impI)
  assume d: "messageDispatcher env (n, w) s = Return (n1, w1)"
  show "GetNymClientId n1
        = (case identity_reply_address env s of None \<Rightarrow> GetNymClientId n | Some a \<Rightarrow> a)"
  proof (cases "identity_reply_address env s")
    case None
    with dispatch_other [OF None d] show ?thesis by (simp add: GetNymClientId_def)
  next
    case (Some a)
    with dispatch_identity [OF Some d] show ?thesis by (simp add: GetNymClientId_def)
  qed
next
  assume "Stop env ack (n, w) = Return (n2, w2)"
  then show "GetNymClientId n2 = GetNymClientId n"
    by (simp add: GetNymClientId_def Stop_keeps_clientID)
next
  assume "selfDestruct env ack (n, w) = Return (n6, w6)"
  then show "GetNymClientId n6 = GetNymClientId n"
    by (simp add: GetNymClientId_def selfDestruct_keeps_clientID)
next
  assume "Send env msg (n, w) = (e, n3, w3)"
  with Send_frame [of env msg n w] show "GetNymClientId n3 = GetNymClientId n"
    by auto
next
  assume "Start env sc (n, w) = Return (r, n4, w4)"
  from Start_clientID [OF this]
  show "GetNymClientId n4 = GetNymClientId n
        \<or> last_identity_reply env (inbound sc) = Some (GetNymClientId n4)"
    by (simp add: GetNymClientId_def)
next
  assume "NewNymSocketManager uri h l = Inr n5"
  then show "GetNymClientId n5 = []"
    by (auto simp: NewNymSocketManager_def GetNymClientId_def split: if_splits)
qed

theorem clientID_written_by_identity_reply_witness:
  "messageDispatcher demo_env (ready_manager, ready_world) ''Ibob''
     = Return (ready_manager\<lparr>clientID := ''bob''\<rparr>,
               ready_world\<lparr>trace := trace ready_world @ [Log LvDebug]\<rparr>)
   \<and> identity_reply_address demo_env ''Ibob'' = Some ''bob''
   \<and> GetNymClientId (ready_manager\<lparr>clientID := ''bob''\<rparr>) = ''bob''
   \<and> messageDispatcher demo_env (ready_manager, ready_world) ''Eboom''
     = Return (ready_manager, ready_world\<lparr>trace := trace ready_world @ [Log LvError]\<rparr>)
   \<and> identity_reply_address demo_env ''Eboom'' = None
   \<and> Stop demo_env True (ready_manager, ready_world) = Return (stopped_manager, stopped_world)
   \<and> GetNymClientId stopped_manager = GetNymClientId ready_manager
   \<and> selfDestruct demo_env True
        (ready_manager, ready_world\<lparr>trace := trace ready_world @ [Log LvDebug]\<rparr>)
     = Return (stopped_manager, stopped_world\<lparr>trace := butlast (trace stopped_world)\<rparr>)
   \<and> Send demo_env (AppMessage ''x'') (ready_manager, ready_world)
     = (None, ready_manager,
        ready_world\<lparr>writes := 2,
          trace := trace ready_world @ [WriteMessage 0 TextMessage ''Sx'' True]\<rparr>)
   \<and> Start demo_env (demo_script [''Ialice'']) (new_manager, new_world)
     = Return ((Some 1, None), ready_manager, ready_world)
   \<and> last_identity_reply demo_env (inbound (demo_script [''Ialice'']))
       = Some (GetNymClientId ready_manager)
   \<and> NewNymSocketManager ''ws://peer'' True True = Inr new_manager
   \<and> GetNymClientId new_manager = []"
proof -
  have a: "identity_reply_address demo_env ''Ibob'' = Some ''bob''"
    by (simp add: identity_reply_address_def frame_type_def demo_env_def demo_unmarshalMap_def)
  have a': "identity_reply_address demo_env ''Eboom'' = None"
    by (simp add: identity_reply_address_def frame_type_def demo_env_def demo_unmarshalMap_def)
  have e: "messageDispatcher demo_env (ready_manager, ready_world) ''Eboom''
     = Return (ready_manager, ready_world\<lparr>trace := trace ready_world @ [Log LvError]\<rparr>)"
    by (simp add: messageDispatcher_def log_def demo_env_def demo_unmarshalMap_def)
  have b: "GetNymClientId ready_manager \<noteq> GetNymClientId new_manager"
    by (simp add: GetNymClientId_def ready_manager_def new_manager_def)
  note t1 = clientID_written_by_identity_reply [where env = demo_env and n = ready_manager
      and w = ready_world and s = "''Ibob''" and ?n1.0 = "ready_manager\<lparr>clientID := ''bob''\<rparr>"
      and ?w1.0 = "ready_world\<lparr>trace := trace ready_world @ [Log LvDebug]\<rparr>"
      and ack = True and ?n2.0 = stopped_manager and ?w2.0 = stopped_world
      and msg = "AppMessage ''x''" and e = None and ?n3.0 = ready_manager
      and ?w3.0 = "ready_world\<lparr>writes := 2,
          trace := trace ready_world @ [WriteMessage 0 TextMessage ''Sx'' True]\<rparr>"]
  note t2 = clientID_written_by_identity_reply [where env = demo_env and n = new_manager
      and w = new_world and sc = "demo_script [''Ialice'']" and r = "(Some 1, None)"
      and ?n4.0 = ready_manager and ?w4.0 = ready_world
      and uri = "''ws://peer''" and h = True and l = True and ?n5.0 = new_manager]
  from t1 demo_dispatch_bob a have 1: "GetNymClientId (ready_manager\<lparr>clientID := ''bob''\<rparr>) = ''bob''"
    by simp
  from t1 demo_Stop_ready have 2: "GetNymClientId stopped_manager = GetNymClientId ready_manager"
    by blast
  from t2 demo_Start_ready b have 3: "last_identity_reply demo_env (inbound (demo_script [''Ialice'']))
       = Some (GetNymClientId ready_manager)"
    by blast
  from t2 demo_New have 4: "GetNymClientId new_manager = []" by blast
  from 1 2 3 4 a a' e demo_dispatch_bob demo_Stop_ready demo_selfDestruct_ready demo_Send_ready
    demo_Start_ready demo_New
  show ?thesis by blast
qed

section \<open>Start that fails after the dial\<close>

text \<open>
  C1 compared with the code. The claim: a \<^verbatim>\<open>Start\<close> that opened the transport and then
  fails tears everything down, so that the connection is nil and \<^verbatim>\<open>IsRunning\<close> is false.
  The code: \<^verbatim>\<open>selfDestruct\<close> returns at its guard, because the stopped-notification
  channel is only made on the success path of \<^verbatim>\<open>Start\<close>. From an idle manager (connection
  and stopped-notification channel nil), every \<^verbatim>\<open>Start\<close> that dials successfully and
  returns an error leaves the dialled connection in the manager: \<^verbatim>\<open>IsRunning\<close> is true.
\<close>

theorem failed_Start_keeps_transport:
  assumes "connection n = None" and "selfInstanceStoppedChan n = None" and "dial_ok sc"
    and "Start env sc (n, w) = Return ((r, Some e), n1, w1)"
  shows "IsRunning n1 \<and> connection n1 = Some (conns w)"
  using Start_failure_running [OF assms(4) assms(1) assms(2) assms(3)]
  by (simp add: IsRunning_def)

theorem failed_Start_keeps_transport_witness:
  "connection new_manager = None \<and> selfInstanceStoppedChan new_manager = None
   \<and> dial_ok (demo_script [])
   \<and> Start demo_env (demo_script []) (new_manager, new_world)
       = Return ((None, Some ErrCollectClientID), stalled_manager, stalled_world)
   \<and> IsRunning stalled_manager \<and> connection stalled_manager = Some 0
   \<and> socketListener stalled_manager = Some 0
   \<and> effects (trace stalled_world)
       = [Dial ''ws://peer'' True, NewListener 0 True, Listen 0,
          WriteMessage 0 TextMessage ''Q'' True]"
proof -
  have a: "connection new_manager = None" "selfInstanceStoppedChan new_manager = None"
    by (simp_all add: new_manager_def)
  have b: "dial_ok (demo_script [])" by (simp add: demo_script_def)
  have c: "conns new_world = 0" by (simp add: new_world_def)
  have d: "socketListener stalled_manager = Some 0" by (simp add: stalled_manager_def)
  have e: "effects (trace stalled_world)
       = [Dial ''ws://peer'' True, NewListener 0 True, Listen 0,
          WriteMessage 0 TextMessage ''Q'' True]"
    by (simp add: effects_def stalled_world_def)
  from failed_Start_keeps_transport [OF a b demo_Start_stalled] c
  have "IsRunning stalled_manager \<and> connection stalled_manager = Some 0" by simp
  with a b d e demo_Start_stalled show ?thesis by blast
qed

section \<open>Two identity replies while the signal is set\<close>

text \<open>
  C2 compared with the code. The claim: no channel is closed twice, in particular not
  by two identity-reply frames in a row while the identity-received signal is set. The
  code: the dispatcher closes the channel and leaves the field set. After a \<^verbatim>\<open>Start\<close>
  that timed out, the signal is still set and open; the first identity reply closes it,
  the second one closes the closed channel, which is a panic. The same happens when both
  replies are dispatched while \<^verbatim>\<open>Start\<close> waits.
\<close>

theorem identity_reply_twice_panics:
  "Start demo_env (demo_script []) (new_manager, new_world)
     = Return ((None, Some ErrCollectClientID), stalled_manager, stalled_world)
   \<and> selfAddressReceivedChan stalled_manager = Some 0 \<and> chan_open stalled_world 0
   \<and> messageDispatcher demo_env (stalled_manager, stalled_world) ''Ia''
     = Return (stalled_manager\<lparr>clientID := ''a''\<rparr>,
               stalled_world\<lparr>chans := [True],
                 trace := trace stalled_world @ [Log LvDebug, CloseChan 0]\<rparr>)
   \<and> chan_closed (stalled_world\<lparr>chans := [True],
                 trace := trace stalled_world @ [Log LvDebug, CloseChan 0]\<rparr>) 0
   \<and> messageDispatcher demo_env
        (stalled_manager\<lparr>clientID := ''a''\<rparr>,
         stalled_world\<lparr>chans := [True],
           trace := trace stalled_world @ [Log LvDebug, CloseChan 0]\<rparr>) ''Ib''
     = Panic
   \<and> dispatch_all demo_env [''Ia'', ''Ib''] (stalled_manager, stalled_world) = Panic
   \<and> Start demo_env (demo_script [''Ia'', ''Ib'']) (new_manager, new_world) = Panic"
proof -
  have 1: "selfAddressReceivedChan stalled_manager = Some 0 \<and> chan_open stalled_world 0"
    by (simp add: stalled_manager_def stalled_world_def chan_open_def)
  have 2: "messageDispatcher demo_env (stalled_manager, stalled_world) ''Ia''
     = Return (stalled_manager\<lparr>clientID := ''a''\<rparr>,
               stalled_world\<lparr>chans := [True],
                 trace := trace stalled_world @ [Log LvDebug, CloseChan 0]\<rparr>)"
    by (simp add: messageDispatcher_def close_chan_def chan_open_def log_def emit_def Let_def
        demo_env_def demo_unmarshalMap_def stalled_manager_def stalled_world_def)
  have 3: "chan_closed (stalled_world\<lparr>chans := [True],
                 trace := trace stalled_world @ [Log LvDebug, CloseChan 0]\<rparr>) 0"
    by (simp add: chan_closed_def)
  have 4: "messageDispatcher demo_env
        (stalled_manager\<lparr>clientID := ''a''\<rparr>,
         stalled_world\<lparr>chans := [True],
           trace := trace stalled_world @ [Log LvDebug, CloseChan 0]\<rparr>) ''Ib''
     = Panic"
    by (simp add: messageDispatcher_def close_chan_def chan_open_def log_def emit_def Let_def
        demo_env_def demo_unmarshalMap_def stalled_manager_def stalled_world_def)
  have 5: "dispatch_all demo_env [''Ia'', ''Ib''] (stalled_manager, stalled_world) = Panic"
    by (simp add: 2 4)
  have 6: "Start demo_env (demo_script [''Ia'', ''Ib'']) (new_manager, new_world) = Panic"
    by (simp add: Start_def requestSelfAddress_def awaitSelfAddress_def messageDispatcher_def
      Send_def write_message_def close_chan_def chan_open_def chan_closed_def make_chan_def
      log_def emit_def NewSelfAddressRequest_def demo_env_def demo_unmarshalMap_def
      demo_script_def new_manager_def new_world_def Let_def)
  from demo_Start_stalled 1 2 3 4 5 6 show ?thesis by blast
qed

section \<open>Teardown of a running manager whose Start failed\<close>

text \<open>
  C6 compared with the code. The claim: teardown on a running manager (one whose
  connection is not nil) sends the close frame, waits for the receive loop, closes the
  transport and closes the stopped-notification channel, in this order, each once. The
  code does so on the manager a successful \<^verbatim>\<open>Start\<close> leaves
  (\<open>ready_teardown_order\<close>). On a running manager whose stopped-notification channel is
  nil, which is what a \<^verbatim>\<open>Start\<close> that failed after the dial leaves, \<^verbatim>\<open>selfDestruct\<close>
  returns at its guard and \<^verbatim>\<open>Stop\<close> with it: the manager is unchanged, the trace gains
  debug lines only, no close frame is written, the receive loop is not waited for and
  the transport is not closed. \<^verbatim>\<open>IsRunning\<close> stays true, after any number of \<^verbatim>\<open>Stop\<close>
  calls.
\<close>

theorem running_manager_not_torn_down:
  assumes "connection n = Some c" and "selfInstanceStoppedChan n = None"
  shows "IsRunning n
     \<and> selfDestruct env ack (n, w)
         = Return (n, w\<lparr>trace := trace w @ [Log LvDebug, Log LvDebug]\<rparr>)
     \<and> Stop env ack (n, w)
         = Return (n, w\<lparr>trace := trace w @ [Log LvDebug, Log LvDebug, Log LvDebug, Log LvDebug]\<rparr>)"
proof -
  have r: "IsRunning n" using assms(1) by (simp add: IsRunning_def)
  have d: "selfDestruct env ack (n, log LvDebug w)
      = Return (n, w\<lparr>trace := trace w @ [Log LvDebug, Log LvDebug, Log LvDebug]\<rparr>)"
    using selfDestruct_guard [OF assms(2), of env ack "log LvDebug w"] by (simp add: log_def)
  have s: "Stop env ack (n, w)
      = Return (n, w\<lparr>trace := trace w @ [Log LvDebug, Log LvDebug, Log LvDebug, Log LvDebug]\<rparr>)"
    using assms(1) by (simp add: Stop_def Let_def d) (simp add: log_def)
  from r selfDestruct_guard [OF assms(2), of env ack w] s show ?thesis by simp
qed

theorem running_manager_not_torn_down_witness:
  "Start demo_env (demo_script []) (new_manager, new_world)
     = Return ((None, Some ErrCollectClientID), stalled_manager, stalled_world)
   \<and> connection stalled_manager = Some 0
   \<and> socketListener stalled_manager = Some 0
   \<and> selfInstanceStoppedChan stalled_manager = None
   \<and> IsRunning stalled_manager
   \<and> selfDestruct demo_env True (stalled_manager, stalled_world)
       = Return (stalled_manager,
                 stalled_world\<lparr>trace := trace stalled_world @ [Log LvDebug, Log LvDebug]\<rparr>)
   \<and> Stop demo_env True (stalled_manager, stalled_world)
       = Return (stalled_manager,
                 stalled_world\<lparr>trace := trace stalled_world
                   @ [Log LvDebug, Log LvDebug, Log LvDebug, Log LvDebug]\<rparr>)
   \<and> effects (trace stalled_world @ [Log LvDebug, Log LvDebug, Log LvDebug, Log LvDebug])
       = [Dial ''ws://peer'' True, NewListener 0 True, Listen 0,
          WriteMessage 0 TextMessage ''Q'' True]"
proof -
  have c: "connection stalled_manager = Some 0" by (simp add: stalled_manager_def)
  have l: "socketListener stalled_manager = Some 0" by (simp add: stalled_manager_def)
  have s: "selfInstanceStoppedChan stalled_manager = None" by (simp add: stalled_manager_def)
  have e: "effects (trace stalled_world @ [Log LvDebug, Log LvDebug, Log LvDebug, Log LvDebug])
       = [Dial ''ws://peer'' True, NewListener 0 True, Listen 0,
          WriteMessage 0 TextMessage ''Q'' True]"
    by (simp add: effects_def stalled_world_def)
  note t = running_manager_not_torn_down [OF c s, of demo_env True stalled_world]
  from t c l s e demo_Start_stalled show ?thesis by blast
qed

end
